theory Spec2Isabelle
  imports Complex_Main "HOL-Library.Char_ord" "HOL-Library.List_Lexorder"
begin

section \<open>JSONL storage of xAPI statements (storage/jsonl.js)\<close>

text \<open>
  A shallow embedding of the local-filesystem backend \<^verbatim>\<open>storage/jsonl.js\<close>:
  path resolution, size-based rotation, the write lock, the two append operations,
  the shard reader and the date-range scan.

  Conventions of the model.
  \<^item> A JavaScript string is a \<open>string\<close>; a file's size is the length of its text
    (exact for ASCII text).
  \<^item> A \<open>Date\<close> is its time value in milliseconds since the epoch, \<open>None\<close> being the
    Invalid Date (time value NaN). Time values are unbounded integers: the limit of
    8.64e15 ms of the language is outside the model.
  \<^item> Local time is UTC, as in the container image the repository ships
    (\<^verbatim>\<open>node:20-slim\<close> with no time zone set).
  \<^item> The functions of the language runtime that the module calls on statement values
    (\<^verbatim>\<open>JSON.parse\<close>, \<^verbatim>\<open>JSON.stringify\<close>, \<^verbatim>\<open>new Date(v)\<close>, \<^verbatim>\<open>new Date()\<close>) are
    parameters, collected in the record \<open>runtime\<close>.
  \<^item> The pattern the module builds from the extension and the day's base name is
    modelled when both are made of atoms that match one character each (literal
    characters, the dot, the escapes listed at \<open>escape_atom\<close>): this covers the
    extensions \<^verbatim>\<open>.jsonl\<close>, \<^verbatim>\<open>.log.jsonl\<close>, \<^verbatim>\<open>txt\<close> and \<^verbatim>\<open>ndjson\<close>. Extensions with
    quantifiers, groups or classes in them are outside the model, and every property
    that depends on the pattern assumes \<open>modelled_pattern\<close>.
  \<^item> A rejected promise or a thrown exception is a value: \<open>Inl msg\<close> for the operations
    that only read, \<open>Raise msg w\<close> (with the world as it is left) for those that write.
\<close>

subsection \<open>Strings\<close>

text \<open>\<^verbatim>\<open>s.split(c)\<close> for a one-character separator.\<close>

fun split_on :: "char \<Rightarrow> string \<Rightarrow> string list" where
  "split_on c [] = [[]]"
| "split_on c (x # xs) =
     (if x = c then [] # split_on c xs
      else (case split_on c xs of
              [] \<Rightarrow> [[x]]
            | l # ls \<Rightarrow> (x # l) # ls))"

definition js_whitespace :: "char \<Rightarrow> bool" where
  "js_whitespace c \<longleftrightarrow> c \<in> set [CHR '' '', CHR 0x09, CHR 0x0A, CHR 0x0B, CHR 0x0C, CHR 0x0D]"

definition trim :: "string \<Rightarrow> string" where
  "trim s = rev (dropWhile js_whitespace (rev (dropWhile js_whitespace s)))"

definition padStart :: "nat \<Rightarrow> char \<Rightarrow> string \<Rightarrow> string" where
  "padStart n c s = replicate (n - length s) c @ s"

definition digit_char :: "int \<Rightarrow> char" where
  "digit_char d = ''0123456789'' ! nat d"

text \<open>The decimal digits of a number that is not negative.\<close>

function digits :: "int \<Rightarrow> string" where
  "digits n = (if n < 10 then [digit_char n] else digits (n div 10) @ [digit_char (n mod 10)])"
  by pat_completeness auto
termination
  by (relation "measure nat") auto

declare digits.simps [simp del]

definition int_toString :: "int \<Rightarrow> string" where
  "int_toString i = (if i < 0 then CHR ''-'' # digits (- i) else digits i)"

text \<open>A number that may be NaN, printed: \<^verbatim>\<open>n.toString()\<close>.\<close>

definition num_toString :: "int option \<Rightarrow> string" where
  "num_toString n = (case n of None \<Rightarrow> ''NaN'' | Some i \<Rightarrow> int_toString i)"

text \<open>\<^verbatim>\<open>s.replace(pat, rep)\<close> for a string pattern: the first occurrence only.\<close>

fun replace_first :: "string \<Rightarrow> string \<Rightarrow> string \<Rightarrow> string" where
  "replace_first [] pat rep = (if pat = [] then rep else [])"
| "replace_first (x # xs) pat rep =
     (if take (length pat) (x # xs) = pat then rep @ drop (length pat) (x # xs)
      else x # replace_first xs pat rep)"

definition is_digit :: "char \<Rightarrow> bool" where
  "is_digit c \<longleftrightarrow> 48 \<le> (of_char c :: nat) \<and> (of_char c :: nat) \<le> 57"

text \<open>\<^verbatim>\<open>parseInt(s, 10)\<close> on a string of decimal digits.\<close>

definition parseInt :: "string \<Rightarrow> int" where
  "parseInt s = foldl (\<lambda>acc c. 10 * acc + (of_char c - 48)) 0 s"

subsection \<open>Statement values\<close>

datatype json =
    JNull
  | JBool bool
  | JNum rat
  | JStr string
  | JArr "json list"
  | JObj "(string \<times> json) list"

text \<open>\<^verbatim>\<open>Boolean(v)\<close>: the truthiness of a value.\<close>

fun Boolean :: "json \<Rightarrow> bool" where
  "Boolean JNull = False"
| "Boolean (JBool b) = b"
| "Boolean (JNum n) = (n \<noteq> 0)"
| "Boolean (JStr s) = (s \<noteq> [])"
| "Boolean (JArr _) = True"
| "Boolean (JObj _) = True"

text \<open>
  \<^verbatim>\<open>statement.timestamp\<close> on a parsed value: the property of an object, \<open>None\<close>
  (undefined) when the object has none or the value is not an object.
\<close>

fun timestamp_of :: "json \<Rightarrow> json option" where
  "timestamp_of (JObj props) = map_of props ''timestamp''"
| "timestamp_of _ = None"

text \<open>The truthiness of \<^verbatim>\<open>statement.timestamp\<close>; undefined is falsy.\<close>

definition has_timestamp :: "json \<Rightarrow> bool" where
  "has_timestamp s = (case timestamp_of s of None \<Rightarrow> False | Some v \<Rightarrow> Boolean v)"

record runtime =
  JSON_parse :: "string \<Rightarrow> json option"
  JSON_stringify :: "json \<Rightarrow> string"
  new_Date :: "json \<Rightarrow> int option"
  Date_now :: int

subsection \<open>Dates\<close>

type_synonym jsdate = "int option"

definition msPerDay :: int where
  "msPerDay = 86400000"

text \<open>\<^verbatim>\<open>a <= b\<close> on two dates: false when either is invalid.\<close>

definition date_le :: "jsdate \<Rightarrow> jsdate \<Rightarrow> bool" where
  "date_le a b = (case (a, b) of (Some x, Some y) \<Rightarrow> x \<le> y | _ \<Rightarrow> False)"

text \<open>\<^verbatim>\<open>d.setHours(0, 0, 0, 0)\<close> and \<^verbatim>\<open>d.setHours(23, 59, 59, 999)\<close>.\<close>

definition startOfDay :: "jsdate \<Rightarrow> jsdate" where
  "startOfDay d = map_option (\<lambda>t. t - t mod msPerDay) d"

definition endOfDay :: "jsdate \<Rightarrow> jsdate" where
  "endOfDay d = map_option (\<lambda>t. t - t mod msPerDay + (msPerDay - 1)) d"

text \<open>\<^verbatim>\<open>d.setDate(d.getDate() + 1)\<close>: the same time of day, one day later.\<close>

definition nextDay :: "jsdate \<Rightarrow> jsdate" where
  "nextDay d = map_option (\<lambda>t. t + msPerDay) d"

text \<open>
  The calendar date (year, month 1..12, day of month) of a day number counted from
  the epoch, in the proleptic Gregorian calendar.
\<close>

definition civil :: "int \<Rightarrow> int \<times> int \<times> int" where
  "civil z0 =
     (let z = z0 + 719468;
          era = z div 146097;
          doe = z mod 146097;
          yoe = (doe - doe div 1460 + doe div 36524 - doe div 146096) div 365;
          doy = doe - (365 * yoe + yoe div 4 - yoe div 100);
          mp = (5 * doy + 2) div 153;
          d = doy - (153 * mp + 2) div 5 + 1;
          m = (if mp < 10 then mp + 3 else mp - 9);
          y = yoe + era * 400 + (if m \<le> 2 then 1 else 0)
      in (y, m, d))"

definition getFullYear :: "jsdate \<Rightarrow> int option" where
  "getFullYear d = map_option (\<lambda>t. fst (civil (t div msPerDay))) d"

text \<open>\<^verbatim>\<open>getMonth\<close> counts months from 0.\<close>

definition getMonth :: "jsdate \<Rightarrow> int option" where
  "getMonth d = map_option (\<lambda>t. fst (snd (civil (t div msPerDay))) - 1) d"

definition getDate :: "jsdate \<Rightarrow> int option" where
  "getDate d = map_option (\<lambda>t. snd (snd (civil (t div msPerDay)))) d"

subsection \<open>Configuration\<close>

text \<open>
  The module-level \<^verbatim>\<open>config\<close> object. The operations only read it, so it is a
  parameter of each of them.
\<close>

record config =
  baseDir :: string
  maxFileSize :: int
  extension :: string

definition DEFAULT_CONFIG :: config where
  "DEFAULT_CONFIG = \<lparr>baseDir = ''/var/log/pxt/xapi'', maxFileSize = 104857600, extension = ''.jsonl''\<rparr>"

subsection \<open>The file system and the lock table\<close>

text \<open>
  The world the module acts on. \<open>dirs w d\<close> is the content of directory \<open>d\<close>: its
  regular files by name with their text, in the order \<^verbatim>\<open>readdir\<close> reports them;
  \<open>None\<close> when there is no such directory. The \<open>_fault\<close> fields say which calls
  the platform refuses and with what message. \<open>writeLocks\<close> is the module's
  \<^verbatim>\<open>Map\<close> of held paths (every value stored in it is \<^verbatim>\<open>true\<close>).
\<close>

record world =
  dirs :: "string \<Rightarrow> (string \<times> string) list option"
  dir_bytes :: "string \<Rightarrow> nat"
  mkdir_fault :: "string \<Rightarrow> string option"
  readdir_fault :: "string \<Rightarrow> string option"
  stat_fault :: "string \<Rightarrow> string option"
  write_fault :: "string \<Rightarrow> string option"
  read_fault :: "string \<Rightarrow> string option"
  writeLocks :: "string set"

datatype 'a outcome = Return 'a world | Raise string world

text \<open>The world an operation leaves behind, whichever way it ended.\<close>

fun world_after :: "'a outcome \<Rightarrow> world" where
  "world_after (Return _ w) = w"
| "world_after (Raise _ w) = w"

text \<open>\<^verbatim>\<open>path.join(a, b)\<close> on normalised segments.\<close>

definition path_join :: "string \<Rightarrow> string \<Rightarrow> string" where
  "path_join a b = a @ ''/'' @ b"

definition dirname :: "string \<Rightarrow> string" where
  "dirname p = rev (drop 1 (dropWhile (\<lambda>c. c \<noteq> CHR ''/'') (rev p)))"

definition basename :: "string \<Rightarrow> string" where
  "basename p = rev (takeWhile (\<lambda>c. c \<noteq> CHR ''/'') (rev p))"

definition file_content :: "world \<Rightarrow> string \<Rightarrow> string option" where
  "file_content w p =
     (case dirs w (dirname p) of
        None \<Rightarrow> None
      | Some entries \<Rightarrow> map_of entries (basename p))"

definition existsSync :: "world \<Rightarrow> string \<Rightarrow> bool" where
  "existsSync w p \<longleftrightarrow> dirs w p \<noteq> None \<or> file_content w p \<noteq> None"

definition mkdirSync :: "world \<Rightarrow> string \<Rightarrow> unit outcome" where
  "mkdirSync w d =
     (case mkdir_fault w d of
        Some msg \<Rightarrow> Raise msg w
      | None \<Rightarrow> Return () (w\<lparr>dirs := (dirs w)(d \<mapsto> [])\<rparr>))"

definition readdir :: "world \<Rightarrow> string \<Rightarrow> string + string list" where
  "readdir w d =
     (case readdir_fault w d of
        Some msg \<Rightarrow> Inl msg
      | None \<Rightarrow>
          (case dirs w d of
             None \<Rightarrow> Inl ''ENOTDIR: not a directory, scandir''
           | Some entries \<Rightarrow> Inr (map fst entries)))"

text \<open>\<^verbatim>\<open>(await stat(p)).size\<close>.\<close>

definition stat_size :: "world \<Rightarrow> string \<Rightarrow> string + nat" where
  "stat_size w p =
     (case stat_fault w p of
        Some msg \<Rightarrow> Inl msg
      | None \<Rightarrow>
          (case file_content w p of
             Some text \<Rightarrow> Inr (length text)
           | None \<Rightarrow>
               if dirs w p \<noteq> None then Inr (dir_bytes w p)
               else Inl ''ENOENT: no such file or directory, stat''))"

definition readFile :: "world \<Rightarrow> string \<Rightarrow> string + string" where
  "readFile w p =
     (case read_fault w p of
        Some msg \<Rightarrow> Inl msg
      | None \<Rightarrow>
          (case file_content w p of
             Some text \<Rightarrow> Inr text
           | None \<Rightarrow>
               if dirs w p \<noteq> None then Inl ''EISDIR: illegal operation on a directory, read''
               else Inl ''ENOENT: no such file or directory, open''))"

definition append_entry :: "(string \<times> string) list \<Rightarrow> string \<Rightarrow> string \<Rightarrow> (string \<times> string) list" where
  "append_entry entries name data =
     (case map_of entries name of
        None \<Rightarrow> entries @ [(name, data)]
      | Some _ \<Rightarrow> map (\<lambda>(n, text). if n = name then (n, text @ data) else (n, text)) entries)"

text \<open>
  \<^verbatim>\<open>appendFile(p, data, "utf8")\<close>: creates the file when it is not there. A refused
  call leaves the file as it was.
\<close>

definition appendFile :: "world \<Rightarrow> string \<Rightarrow> string \<Rightarrow> unit outcome" where
  "appendFile w p data =
     (case write_fault w p of
        Some msg \<Rightarrow> Raise msg w
      | None \<Rightarrow>
          if dirs w p \<noteq> None then Raise ''EISDIR: illegal operation on a directory, open'' w
          else
            (case dirs w (dirname p) of
               None \<Rightarrow> Raise ''ENOENT: no such file or directory, open'' w
             | Some entries \<Rightarrow>
                 Return () (w\<lparr>dirs := (dirs w)(dirname p \<mapsto> append_entry entries (basename p) data)\<rparr>)))"

definition ensureDir :: "world \<Rightarrow> string \<Rightarrow> unit outcome" where
  "ensureDir w dir = (if \<not> existsSync w dir then mkdirSync w dir else Return () w)"

subsection \<open>Path resolution\<close>

definition getDateDirectory :: "config \<Rightarrow> jsdate \<Rightarrow> string" where
  "getDateDirectory cfg date =
     (let year = num_toString (getFullYear date);
          month = padStart 2 CHR ''0'' (num_toString (map_option (\<lambda>m. m + 1) (getMonth date)))
      in path_join (path_join (baseDir cfg) year) month)"

definition getDateFilename :: "config \<Rightarrow> jsdate \<Rightarrow> string" where
  "getDateFilename cfg date =
     (let day = padStart 2 CHR ''0'' (num_toString (getDate date))
      in day @ extension cfg)"

text \<open>The rotation index is optional in the source: \<open>None\<close> is \<^verbatim>\<open>undefined\<close>.\<close>

definition getFilePath :: "config \<Rightarrow> jsdate \<Rightarrow> int option \<Rightarrow> string" where
  "getFilePath cfg date rotationIndex =
     (let dir = getDateDirectory cfg date;
          filename = getDateFilename cfg date
      in case rotationIndex of
           None \<Rightarrow> path_join dir filename
         | Some i \<Rightarrow>
             if i > 0 then
               (let baseName = replace_first filename (extension cfg) []
                in path_join dir
                     (baseName @ ''-'' @ padStart 3 CHR ''0'' (int_toString i) @ extension cfg))
             else path_join dir filename)"

text \<open>
  The pattern of a day's shards is \<^verbatim>\<open>new RegExp(`^${baseFilename}(-\\d{3})?\\${config.extension}$`)\<close>:
  the text \<^verbatim>\<open>^\<close>, the base name as it is, the group \<^verbatim>\<open>(-\d{3})?\<close>, one backslash, the
  extension as it is, and \<^verbatim>\<open>$\<close>. So the backslash escapes the first character of the
  extension only, and every other character of the base name and of the extension has
  the meaning the pattern language gives it.

  The model covers the patterns in which the base name and the extension are made of
  atoms that match one character each. An atom is a predicate on characters.
\<close>

type_synonym atom = "char \<Rightarrow> bool"

definition word_char :: "char \<Rightarrow> bool" where
  "word_char c \<longleftrightarrow>
     is_digit c \<or> (65 \<le> (of_char c :: nat) \<and> (of_char c :: nat) \<le> 90)
     \<or> (97 \<le> (of_char c :: nat) \<and> (of_char c :: nat) \<le> 122) \<or> c = CHR ''_''"

text \<open>
  A character of the pattern that no backslash precedes. The dot matches every
  character but a line terminator. The other characters with a role in the syntax of
  patterns are outside the model (\<open>None\<close>). Every other character matches itself.
\<close>

definition plain_atom :: "char \<Rightarrow> atom option" where
  "plain_atom c =
     (if c = CHR ''.'' then Some (\<lambda>x. x \<noteq> CHR 0x0A \<and> x \<noteq> CHR 0x0D)
      else if c \<in> set ''^$*+?()[]{}|'' \<or> c = CHR 0x5C then None
      else Some (\<lambda>x. x = c))"

text \<open>
  The character \<open>c\<close> after a backslash: the classes \<^verbatim>\<open>\d\<close>, \<^verbatim>\<open>\D\<close>, \<^verbatim>\<open>\w\<close>, \<^verbatim>\<open>\W\<close>, the control
  characters \<^verbatim>\<open>\t\<close>, \<^verbatim>\<open>\n\<close>, \<^verbatim>\<open>\v\<close>, \<^verbatim>\<open>\f\<close>, \<^verbatim>\<open>\r\<close>, and the character itself when it is an
  ASCII character that is neither a letter nor a digit. The other escapes are outside
  the model (\<open>None\<close>).
\<close>

definition escape_atom :: "char \<Rightarrow> atom option" where
  "escape_atom c =
     (if c = CHR ''d'' then Some is_digit
      else if c = CHR ''D'' then Some (\<lambda>x. \<not> is_digit x)
      else if c = CHR ''w'' then Some word_char
      else if c = CHR ''W'' then Some (\<lambda>x. \<not> word_char x)
      else if c = CHR ''t'' then Some (\<lambda>x. x = CHR 0x09)
      else if c = CHR ''n'' then Some (\<lambda>x. x = CHR 0x0A)
      else if c = CHR ''v'' then Some (\<lambda>x. x = CHR 0x0B)
      else if c = CHR ''f'' then Some (\<lambda>x. x = CHR 0x0C)
      else if c = CHR ''r'' then Some (\<lambda>x. x = CHR 0x0D)
      else if (word_char c \<and> c \<noteq> CHR ''_'') \<or> 128 \<le> (of_char c :: nat) then None
      else Some (\<lambda>x. x = c))"

text \<open>
  The atoms of the base name and of the escaped extension; \<open>None\<close> when the pattern is
  outside the model. With an empty extension the backslash would escape the \<^verbatim>\<open>$\<close>:
  that is outside the model too.
\<close>

definition pattern_atoms :: "string \<Rightarrow> string \<Rightarrow> (atom list \<times> atom list) option" where
  "pattern_atoms baseFilename ext =
     (case ext of
        [] \<Rightarrow> None
      | c # rest \<Rightarrow>
          (case (those (map plain_atom baseFilename), escape_atom c, those (map plain_atom rest)) of
             (Some front, Some a, Some back) \<Rightarrow> Some (front, a # back)
           | _ \<Rightarrow> None))"

definition modelled_pattern :: "string \<Rightarrow> string \<Rightarrow> bool" where
  "modelled_pattern baseFilename ext \<longleftrightarrow> pattern_atoms baseFilename ext \<noteq> None"

text \<open>A text matches a list of atoms when it has one character for each, in order.\<close>

definition atoms_match :: "atom list \<Rightarrow> string \<Rightarrow> bool" where
  "atoms_match atoms s \<longleftrightarrow> list_all2 (\<lambda>a c. a c) atoms s"

text \<open>
  \<^verbatim>\<open>file.match(pattern)\<close>. \<open>None\<close>: no match. \<open>Some g\<close>: a match whose group 1 is \<open>g\<close>
  (\<open>None\<close> for \<^verbatim>\<open>undefined\<close>). The group is tried first and left out if the match fails
  with it. For a pattern outside the model the result is \<open>None\<close>; the properties below
  that depend on the pattern are stated for the modelled ones.
\<close>

definition shard_match :: "string \<Rightarrow> string \<Rightarrow> string \<Rightarrow> string option option" where
  "shard_match baseFilename ext file =
     (case pattern_atoms baseFilename ext of
        None \<Rightarrow> None
      | Some (front, back) \<Rightarrow>
          (if atoms_match front (take (length front) file) then
             (let rest = drop (length front) file
              in if take 1 rest = ''-'' \<and> length (take 3 (drop 1 rest)) = 3
                    \<and> list_all is_digit (take 3 (drop 1 rest)) \<and> atoms_match back (drop 4 rest)
                 then Some (Some (take 4 rest))
                 else if atoms_match back rest then Some None
                 else None)
           else None))"

definition baseFilename_of :: "config \<Rightarrow> jsdate \<Rightarrow> string" where
  "baseFilename_of cfg date = replace_first (getDateFilename cfg date) (extension cfg) []"

definition getCurrentRotationIndex :: "config \<Rightarrow> world \<Rightarrow> jsdate \<Rightarrow> string + int" where
  "getCurrentRotationIndex cfg w date =
     (let dir = getDateDirectory cfg date;
          baseFilename = baseFilename_of cfg date
      in if \<not> existsSync w dir then Inr 0
         else
           (case readdir w dir of
              Inl msg \<Rightarrow> Inl msg
            | Inr files \<Rightarrow>
                Inr (foldl
                      (\<lambda>maxIndex file.
                         case shard_match baseFilename (extension cfg) file of
                           Some (Some g) \<Rightarrow> max maxIndex (parseInt (drop 1 g))
                         | _ \<Rightarrow> maxIndex)
                      0 files)))"

definition needsRotation :: "config \<Rightarrow> world \<Rightarrow> string \<Rightarrow> string + bool" where
  "needsRotation cfg w filePath =
     (if \<not> existsSync w filePath then Inr False
      else
        (case stat_size w filePath of
           Inl msg \<Rightarrow> Inl msg
         | Inr bytes \<Rightarrow> Inr (int bytes \<ge> maxFileSize cfg)))"

definition getWriteFilePath :: "config \<Rightarrow> world \<Rightarrow> jsdate \<Rightarrow> string outcome" where
  "getWriteFilePath cfg w date =
     (let dir = getDateDirectory cfg date
      in case ensureDir w dir of
           Raise msg w' \<Rightarrow> Raise msg w'
         | Return _ w1 \<Rightarrow>
             (case getCurrentRotationIndex cfg w1 date of
                Inl msg \<Rightarrow> Raise msg w1
              | Inr rotationIndex \<Rightarrow>
                  (let filePath =
                         getFilePath cfg date (if rotationIndex = 0 then None else Some rotationIndex)
                   in case needsRotation cfg w1 filePath of
                        Inl msg \<Rightarrow> Raise msg w1
                      | Inr True \<Rightarrow> Return (getFilePath cfg date (Some (rotationIndex + 1))) w1
                      | Inr False \<Rightarrow> Return filePath w1)))"

subsection \<open>The write lock\<close>

text \<open>
  \<^verbatim>\<open>acquireLock\<close> polls the lock table every 10 ms until the path is free. The
  operations below are run one at a time, so nothing releases a held path while the
  caller sleeps: the loop then goes on for ever, which is the value \<open>None\<close>.
\<close>

partial_function (option) acquireLock :: "world \<Rightarrow> string \<Rightarrow> world option" where
  "acquireLock w filePath =
     (if filePath \<in> writeLocks w then acquireLock w filePath
      else Some (w\<lparr>writeLocks := insert filePath (writeLocks w)\<rparr>))"

definition releaseLock :: "world \<Rightarrow> string \<Rightarrow> world" where
  "releaseLock w filePath = w\<lparr>writeLocks := writeLocks w - {filePath}\<rparr>"

subsection \<open>Appending\<close>

text \<open>
  \<^verbatim>\<open>statement.timestamp ? new Date(statement.timestamp) : new Date()\<close>, for a statement
  that is not \<^verbatim>\<open>null\<close>.
\<close>

definition statement_date :: "runtime \<Rightarrow> json \<Rightarrow> jsdate" where
  "statement_date rt statement =
     (case timestamp_of statement of
        Some v \<Rightarrow> if Boolean v then new_Date rt v else Some (Date_now rt)
      | None \<Rightarrow> Some (Date_now rt))"

definition null_TypeError :: string where
  "null_TypeError = ''Cannot read properties of null (reading 'timestamp')''"

record append_result =
  filePath :: string
  success :: bool
  error :: "string option"

text \<open>
  \<^verbatim>\<open>appendStatement(statement, date)\<close>; \<open>date = None\<close> is a call without the second
  argument. The result is \<open>None\<close> when the call never returns, \<open>Some (Raise msg w')\<close>
  when its promise is rejected, \<open>Some (Return r w')\<close> when it resolves to \<open>r\<close>.
\<close>

definition appendStatement ::
  "runtime \<Rightarrow> config \<Rightarrow> world \<Rightarrow> json \<Rightarrow> jsdate option \<Rightarrow> append_result outcome option" where
  "appendStatement rt cfg w statement date =
     (if date = None \<and> statement = JNull then Some (Raise null_TypeError w)
      else
        (let timestamp = (case date of Some d \<Rightarrow> d | None \<Rightarrow> statement_date rt statement)
         in case getWriteFilePath cfg w timestamp of
              Raise msg w' \<Rightarrow> Some (Raise msg w')
            | Return path w1 \<Rightarrow>
                (case acquireLock w1 path of
                   None \<Rightarrow> None
                 | Some w2 \<Rightarrow>
                     (let line = JSON_stringify rt statement @ [CHR 0x0A]
                      in case appendFile w2 path line of
                           Return _ w3 \<Rightarrow>
                             Some (Return \<lparr>filePath = path, success = True, error = None\<rparr>
                                     (releaseLock w3 path))
                         | Raise msg w3 \<Rightarrow>
                             Some (Return \<lparr>filePath = path, success = False, error = Some msg\<rparr>
                                     (releaseLock w3 path))))))"

text \<open>
  \<^verbatim>\<open>timestamp.toISOString().split("T")[0]\<close>: the date part of the ISO form, with the
  expanded six-digit year outside 0..9999.
\<close>

definition dateKey_of :: "int \<Rightarrow> string" where
  "dateKey_of t =
     (case civil (t div msPerDay) of
        (y, m, d) \<Rightarrow>
          (if 0 \<le> y \<and> y \<le> 9999 then padStart 4 CHR ''0'' (digits y)
           else (if y < 0 then ''-'' else ''+'') @ padStart 6 CHR ''0'' (digits \<bar>y\<bar>))
          @ ''-'' @ padStart 2 CHR ''0'' (digits m)
          @ ''-'' @ padStart 2 CHR ''0'' (digits d))"

text \<open>
  The \<^verbatim>\<open>byDate\<close> map, in insertion order: each group is its key, the date of the
  statement that opened it, and its statements.
\<close>

type_synonym date_group = "string \<times> jsdate \<times> json list"

fun add_to_group :: "string \<Rightarrow> jsdate \<Rightarrow> json \<Rightarrow> date_group list \<Rightarrow> date_group list" where
  "add_to_group dateKey timestamp statement [] = [(dateKey, timestamp, [statement])]"
| "add_to_group dateKey timestamp statement ((k, d, statements) # groups) =
     (if k = dateKey then (k, d, statements @ [statement]) # groups
      else (k, d, statements) # add_to_group dateKey timestamp statement groups)"

text \<open>
  The grouping loop. \<^verbatim>\<open>toISOString\<close> throws a RangeError on an Invalid Date, and
  reading a property of \<^verbatim>\<open>null\<close> a TypeError.
\<close>

fun group_by_date :: "runtime \<Rightarrow> json list \<Rightarrow> date_group list \<Rightarrow> string + date_group list" where
  "group_by_date rt [] byDate = Inr byDate"
| "group_by_date rt (statement # rest) byDate =
     (if statement = JNull then Inl null_TypeError
      else
        (case statement_date rt statement of
           None \<Rightarrow> Inl ''Invalid time value''
         | Some t \<Rightarrow> group_by_date rt rest (add_to_group (dateKey_of t) (Some t) statement byDate)))"

text \<open>\<^verbatim>\<open>xs.join("\n")\<close>.\<close>

fun join_lines :: "string list \<Rightarrow> string" where
  "join_lines [] = []"
| "join_lines [x] = x"
| "join_lines (x # y # ys) = x @ [CHR 0x0A] @ join_lines (y # ys)"

text \<open>
  The result of \<^verbatim>\<open>appendStatements\<close>: the fields \<^verbatim>\<open>total\<close>, \<^verbatim>\<open>success\<close>,
  \<^verbatim>\<open>failed\<close> and \<^verbatim>\<open>errors\<close> of the source.
\<close>

record batch_result =
  total_count :: nat
  success_count :: nat
  failed_count :: nat
  errors :: "string list"

text \<open>The loop over the date groups.\<close>

fun write_groups ::
  "runtime \<Rightarrow> config \<Rightarrow> date_group list \<Rightarrow> batch_result \<Rightarrow> world \<Rightarrow> batch_result outcome option" where
  "write_groups rt cfg [] result w = Some (Return result w)"
| "write_groups rt cfg ((dateKey, date, statements) # groups) result w =
     (case getWriteFilePath cfg w date of
        Raise msg w' \<Rightarrow> Some (Raise msg w')
      | Return path w1 \<Rightarrow>
          (case acquireLock w1 path of
             None \<Rightarrow> None
           | Some w2 \<Rightarrow>
               (let lines = join_lines (map (JSON_stringify rt) statements) @ [CHR 0x0A]
                in case appendFile w2 path lines of
                     Return _ w3 \<Rightarrow>
                       write_groups rt cfg groups
                         (result\<lparr>success_count := success_count result + length statements\<rparr>)
                         (releaseLock w3 path)
                   | Raise msg w3 \<Rightarrow>
                       write_groups rt cfg groups
                         (result\<lparr>failed_count := failed_count result + length statements,
                                 errors := errors result @ [dateKey @ '': '' @ msg]\<rparr>)
                         (releaseLock w3 path))))"

definition appendStatements ::
  "runtime \<Rightarrow> config \<Rightarrow> world \<Rightarrow> json list \<Rightarrow> batch_result outcome option" where
  "appendStatements rt cfg w statements =
     (let result = \<lparr>total_count = length statements, success_count = 0, failed_count = 0, errors = []\<rparr>
      in case group_by_date rt statements [] of
           Inl msg \<Rightarrow> Some (Raise msg w)
         | Inr byDate \<Rightarrow> write_groups rt cfg byDate result w)"

subsection \<open>Reading\<close>

definition readStatements :: "runtime \<Rightarrow> world \<Rightarrow> string \<Rightarrow> string + json list" where
  "readStatements rt w path =
     (if \<not> existsSync w path then Inr []
      else
        (case readFile w path of
           Inl msg \<Rightarrow> Inl msg
         | Inr content \<Rightarrow>
             (let lines = filter (\<lambda>line. trim line \<noteq> []) (split_on (CHR 0x0A) content)
              in Inr (filter Boolean
                        (map (\<lambda>line. case JSON_parse rt line of Some v \<Rightarrow> v | None \<Rightarrow> JNull)
                           lines)))))"

text \<open>
  The filter of the range scan: \<^verbatim>\<open>stmtDate >= startDate && stmtDate <= end\<close> for a
  statement with a truthy \<^verbatim>\<open>timestamp\<close>, and no test for the others.
\<close>

definition in_range :: "runtime \<Rightarrow> jsdate \<Rightarrow> jsdate \<Rightarrow> json \<Rightarrow> bool" where
  "in_range rt startDate end' statement =
     (case timestamp_of statement of
        Some v \<Rightarrow>
          if Boolean v then
            (let stmtDate = new_Date rt v
             in date_le startDate stmtDate \<and> date_le stmtDate end')
          else True
      | None \<Rightarrow> True)"

text \<open>
  The range scan is an asynchronous generator: its result is the statements it has
  yielded, and the message of the exception that ended it, if one did.
\<close>

type_synonym scan_result = "json list \<times> string option"

fun scan_files ::
  "runtime \<Rightarrow> world \<Rightarrow> string \<Rightarrow> jsdate \<Rightarrow> jsdate \<Rightarrow> string list \<Rightarrow> scan_result" where
  "scan_files rt w dir startDate end' [] = ([], None)"
| "scan_files rt w dir startDate end' (file # files) =
     (case readStatements rt w (path_join dir file) of
        Inl msg \<Rightarrow> ([], Some msg)
      | Inr statements \<Rightarrow>
          (case scan_files rt w dir startDate end' files of
             (later, err) \<Rightarrow> (filter (in_range rt startDate end') statements @ later, err)))"

text \<open>One round of the \<^verbatim>\<open>while\<close> loop, for the day \<open>current\<close>.\<close>

definition scan_day ::
  "runtime \<Rightarrow> config \<Rightarrow> world \<Rightarrow> jsdate \<Rightarrow> jsdate \<Rightarrow> jsdate \<Rightarrow> scan_result" where
  "scan_day rt cfg w startDate end' current =
     (let dir = getDateDirectory cfg current
      in if existsSync w dir then
           (let baseFilename = baseFilename_of cfg current
            in case readdir w dir of
                 Inl msg \<Rightarrow> ([], Some msg)
               | Inr files \<Rightarrow>
                   (let matchingFiles =
                          sort (filter (\<lambda>f. shard_match baseFilename (extension cfg) f \<noteq> None) files)
                    in scan_files rt w dir startDate end' matchingFiles))
         else ([], None))"

function scan_days ::
  "runtime \<Rightarrow> config \<Rightarrow> world \<Rightarrow> jsdate \<Rightarrow> jsdate \<Rightarrow> jsdate \<Rightarrow> scan_result" where
  "scan_days rt cfg w startDate end' current =
     (if date_le current end' then
        (case scan_day rt cfg w startDate end' current of
           (today, Some msg) \<Rightarrow> (today, Some msg)
         | (today, None) \<Rightarrow>
             (case scan_days rt cfg w startDate end' (nextDay current) of
                (later, err) \<Rightarrow> (today @ later, err)))
      else ([], None))"
  by pat_completeness auto
termination
  by (relation "measure (\<lambda>(rt, cfg, w, startDate, end', current).
          case (end', current) of (Some e, Some c) \<Rightarrow> nat (e - c + 1) | _ \<Rightarrow> 0)")
     (auto simp: date_le_def nextDay_def msPerDay_def split: option.splits)

declare scan_days.simps [simp del]

definition readStatementsInRange ::
  "runtime \<Rightarrow> config \<Rightarrow> world \<Rightarrow> jsdate \<Rightarrow> jsdate \<Rightarrow> scan_result" where
  "readStatementsInRange rt cfg w startDate endDate =
     scan_days rt cfg w startDate (endOfDay endDate) (startOfDay startDate)"

subsection \<open>Concurrent appends to one shard\<close>

text \<open>
  Several append operations in flight in one process, all resolved to the path \<open>p\<close>. A
  task is the part of an operation from \<^verbatim>\<open>await acquireLock(filePath)\<close> to
  \<^verbatim>\<open>releaseLock(filePath)\<close>: the rest of \<^verbatim>\<open>appendStatement\<close>, or of one round of the
  loop of \<^verbatim>\<open>appendStatements\<close>, once the path is resolved. \<open>payload\<close> is the text it
  passes to \<^verbatim>\<open>appendFile\<close>.

  The run-time runs one task at a time, from one \<^verbatim>\<open>await\<close> to the next:

  \<^item> \<open>Waiting\<close>: the task is in the loop of \<^verbatim>\<open>acquireLock\<close>. When it runs it tests
    \<^verbatim>\<open>writeLocks.get(filePath)\<close>. If the path is held it sleeps 10 ms and is where it
    was. If not it leaves the loop and sets the entry, with no \<^verbatim>\<open>await\<close> between the
    test and \<^verbatim>\<open>writeLocks.set\<close>; then it calls \<^verbatim>\<open>appendFile\<close>.
  \<^item> \<open>Writing\<close>: \<^verbatim>\<open>appendFile\<close> is under way. The platform adds the payload at the end
    of the file in one or more pieces; \<open>written\<close> is what it has added so far. When
    nothing is left the promise resolves and the task goes through \<^verbatim>\<open>finally\<close>, which
    releases the lock. When the platform refuses a piece the promise is rejected and
    the task goes through \<^verbatim>\<open>catch\<close> and \<^verbatim>\<open>finally\<close>.
  \<^item> \<open>Done r\<close>: the task has ended, with the error message \<open>r\<close> if there was one.
\<close>

datatype phase = Waiting | Writing | Done "string option"

record task =
  payload :: string
  written :: string
  phase :: phase

text \<open>
  \<open>acquired\<close> lists the tasks in the order in which they set the lock entry. It is
  not a variable of the program.
\<close>

record system =
  store :: world
  tasks :: "task list"
  acquired :: "nat list"

text \<open>
  Task \<open>i\<close> runs up to its next \<^verbatim>\<open>await\<close>; \<open>n + 1\<close> bounds the length of the piece
  the platform writes if the task is writing. \<open>None\<close>: there is no such task, or it has
  ended.
\<close>

definition turn :: "string \<Rightarrow> nat \<Rightarrow> nat \<Rightarrow> system \<Rightarrow> system option" where
  "turn p i n s =
     (if length (tasks s) \<le> i then None
      else
        (let t = tasks s ! i; w = store s
         in case phase t of
              Waiting \<Rightarrow>
                if p \<in> writeLocks w then Some s
                else
                  (case acquireLock w p of
                     None \<Rightarrow> None
                   | Some w' \<Rightarrow>
                       Some (s\<lparr>store := w', tasks := (tasks s)[i := t\<lparr>phase := Writing\<rparr>],
                               acquired := acquired s @ [i]\<rparr>))
            | Writing \<Rightarrow>
                (let rest = drop (length (written t)) (payload t)
                 in if rest = [] then
                      Some (s\<lparr>store := releaseLock w p,
                              tasks := (tasks s)[i := t\<lparr>phase := Done None\<rparr>]\<rparr>)
                    else
                      (case appendFile w p (take (Suc n) rest) of
                         Return _ w' \<Rightarrow>
                           Some (s\<lparr>store := w',
                                   tasks := (tasks s)[i := t\<lparr>written := written t @ take (Suc n) rest\<rparr>]\<rparr>)
                       | Raise msg w' \<Rightarrow>
                           Some (s\<lparr>store := releaseLock w' p,
                                   tasks := (tasks s)[i := t\<lparr>phase := Done (Some msg)\<rparr>]\<rparr>)))
            | Done r \<Rightarrow> None))"

text \<open>The text of the file at \<open>p\<close>; empty when there is no file.\<close>

definition shard_text :: "world \<Rightarrow> string \<Rightarrow> string" where
  "shard_text w p = (case file_content w p of Some text \<Rightarrow> text | None \<Rightarrow> [])"

text \<open>
  What happens besides the tasks (operations on other paths, the path resolution of
  later operations, the platform changing what it refuses) changes the world in any
  way that leaves the file at \<open>p\<close> and the lock entry of \<open>p\<close> as they are.
\<close>

definition elsewhere :: "string \<Rightarrow> world \<Rightarrow> world \<Rightarrow> bool" where
  "elsewhere p w w' \<longleftrightarrow>
     shard_text w' p = shard_text w p \<and> (p \<in> writeLocks w' \<longleftrightarrow> p \<in> writeLocks w)"

inductive step :: "string \<Rightarrow> system \<Rightarrow> system \<Rightarrow> bool" for p :: string where
  task_turn: "turn p i n s = Some s' \<Longrightarrow> step p s s'"
| other: "elsewhere p (store s) w' \<Longrightarrow> step p s (s\<lparr>store := w'\<rparr>)"

text \<open>Every task is waiting for the lock and none has acquired it.\<close>

definition initial :: "world \<Rightarrow> string list \<Rightarrow> system" where
  "initial w payloads =
     \<lparr>store = w,
      tasks = map (\<lambda>d. \<lparr>payload = d, written = [], phase = Waiting\<rparr>) payloads,
      acquired = []\<rparr>"

definition reachable :: "string \<Rightarrow> world \<Rightarrow> string list \<Rightarrow> system \<Rightarrow> bool" where
  "reachable p w payloads s \<longleftrightarrow> (step p)\<^sup>*\<^sup>* (initial w payloads) s"

text \<open>A schedule: which task runs next and how long a piece the platform writes.\<close>

fun run :: "string \<Rightarrow> (nat \<times> nat) list \<Rightarrow> system \<Rightarrow> system option" where
  "run p [] s = Some s"
| "run p ((i, n) # schedule) s =
     (case turn p i n s of None \<Rightarrow> None | Some s' \<Rightarrow> run p schedule s')"

text \<open>The text a statement's append, and a date group's, passes to \<^verbatim>\<open>appendFile\<close>.\<close>

definition lines_of :: "runtime \<Rightarrow> json list \<Rightarrow> string" where
  "lines_of rt statements = join_lines (map (JSON_stringify rt) statements) @ [CHR 0x0A]"

subsection \<open>Notions of the specification\<close>

text \<open>What one line of a shard contributes to the statements read from it.\<close>

definition line_records :: "runtime \<Rightarrow> string \<Rightarrow> json list" where
  "line_records rt line =
     (if trim line = [] then []
      else (case JSON_parse rt line of None \<Rightarrow> [] | Some v \<Rightarrow> if Boolean v then [v] else []))"

text \<open>
  The rotation indices of the files of a listing that match a day's pattern: 0 for
  the name without a suffix, \<open>NNN\<close> read as a number for the suffix \<open>-NNN\<close>.
\<close>

definition rotation_indices :: "string \<Rightarrow> string \<Rightarrow> string list \<Rightarrow> int list" where
  "rotation_indices baseFilename ext files =
     concat (map (\<lambda>file. case shard_match baseFilename ext file of
                            None \<Rightarrow> []
                          | Some None \<Rightarrow> [0]
                          | Some (Some g) \<Rightarrow> [parseInt (drop 1 g)]) files)"

text \<open>
  The path the specification gives \<^verbatim>\<open>getWriteFilePath\<close> for a date whose current
  rotation index is \<open>i\<close>: the shard of index \<open>i\<close>, unless that shard exists with a
  size at or above the threshold, and then the shard of index \<open>i + 1\<close>.
\<close>

definition rotation_target :: "config \<Rightarrow> world \<Rightarrow> jsdate \<Rightarrow> int \<Rightarrow> string" where
  "rotation_target cfg w date i =
     (if existsSync w (getFilePath cfg date (Some i))
         \<and> (case stat_size w (getFilePath cfg date (Some i)) of
               Inr n \<Rightarrow> maxFileSize cfg \<le> int n
             | Inl _ \<Rightarrow> False)
      then getFilePath cfg date (Some (i + 1))
      else getFilePath cfg date (Some i))"

text \<open>
  The shard paths that \<^verbatim>\<open>appendStatements\<close> resolves while it runs, in order: the path
  of every date group for which \<^verbatim>\<open>getWriteFilePath\<close> returned.
\<close>

fun resolved_paths :: "runtime \<Rightarrow> config \<Rightarrow> date_group list \<Rightarrow> world \<Rightarrow> string list" where
  "resolved_paths rt cfg [] w = []"
| "resolved_paths rt cfg ((dateKey, date, statements) # groups) w =
     (case getWriteFilePath cfg w date of
        Raise _ _ \<Rightarrow> []
      | Return path w1 \<Rightarrow>
          path #
          (case acquireLock w1 path of
             None \<Rightarrow> []
           | Some w2 \<Rightarrow>
               resolved_paths rt cfg groups
                 (releaseLock
                    (world_after
                       (appendFile w2 path
                          (join_lines (map (JSON_stringify rt) statements) @ [CHR 0x0A])))
                    path)))"

definition batch_paths :: "runtime \<Rightarrow> config \<Rightarrow> world \<Rightarrow> json list \<Rightarrow> string list" where
  "batch_paths rt cfg w statements =
     (case group_by_date rt statements [] of
        Inl _ \<Rightarrow> []
      | Inr byDate \<Rightarrow> resolved_paths rt cfg byDate w)"

text \<open>
  The range scan. The days a scan from \<open>s\<close> to \<open>e\<close> iterates are numbered from the
  epoch. \<open>day_shards\<close> are the paths the scan reads for a day, in the order in which it
  reads them, and \<open>visited_shards\<close> those of all the days. A statement passes the
  filter for the bounds \<open>lo\<close> and \<open>hi\<close> when its \<^verbatim>\<open>timestamp\<close> is absent or falsy, or
  denotes a time between the bounds.
\<close>

definition day_numbers :: "int \<Rightarrow> int \<Rightarrow> int list" where
  "day_numbers s e = [s div msPerDay .. e div msPerDay]"

definition day_shards :: "config \<Rightarrow> world \<Rightarrow> int \<Rightarrow> string list" where
  "day_shards cfg w d =
     (let current = Some (d * msPerDay);
          dir = getDateDirectory cfg current
      in if existsSync w dir then
           (case readdir w dir of
              Inl _ \<Rightarrow> []
            | Inr files \<Rightarrow>
                map (path_join dir)
                  (sort (filter (\<lambda>f. shard_match (baseFilename_of cfg current) (extension cfg) f \<noteq> None)
                           files)))
         else [])"

definition visited_shards :: "config \<Rightarrow> world \<Rightarrow> int \<Rightarrow> int \<Rightarrow> string list" where
  "visited_shards cfg w s e = concat (map (day_shards cfg w) (day_numbers s e))"

definition passes :: "runtime \<Rightarrow> int \<Rightarrow> int \<Rightarrow> json \<Rightarrow> bool" where
  "passes rt lo hi statement =
     (case timestamp_of statement of
        None \<Rightarrow> True
      | Some v \<Rightarrow>
          if Boolean v then (case new_Date rt v of None \<Rightarrow> False | Some t \<Rightarrow> lo \<le> t \<and> t \<le> hi)
          else True)"

definition shard_records :: "runtime \<Rightarrow> world \<Rightarrow> int \<Rightarrow> int \<Rightarrow> string \<Rightarrow> json list" where
  "shard_records rt w lo hi p =
     (case readStatements rt w p of
        Inl _ \<Rightarrow> []
      | Inr statements \<Rightarrow> filter (passes rt lo hi) statements)"

text \<open>
  The shards of a day: the paths of the names that the day's directory lists and that
  match the day's pattern. A statement is stored in the range from \<open>s\<close> to \<open>e\<close> when
  it is among the statements read from a shard of a day from the day of \<open>s\<close> to the
  day of \<open>e\<close>.
\<close>

definition shards_of_day :: "config \<Rightarrow> world \<Rightarrow> int \<Rightarrow> string set" where
  "shards_of_day cfg w d =
     (let current = Some (d * msPerDay);
          dir = getDateDirectory cfg current
      in case readdir w dir of
           Inl _ \<Rightarrow> {}
         | Inr files \<Rightarrow>
             path_join dir `
               {f \<in> set files. shard_match (baseFilename_of cfg current) (extension cfg) f \<noteq> None})"

definition stored_in_range :: "runtime \<Rightarrow> config \<Rightarrow> world \<Rightarrow> int \<Rightarrow> int \<Rightarrow> json \<Rightarrow> bool" where
  "stored_in_range rt cfg w s e r \<longleftrightarrow>
     (\<exists>d \<in> set (day_numbers s e). \<exists>p \<in> shards_of_day cfg w d.
        \<exists>statements. readStatements rt w p = Inr statements \<and> r \<in> set statements)"

text \<open>
  The state of a system in which the appends to \<open>p\<close> have gone one after the other,
  from a file that held \<open>c0\<close>: the tasks that are past the lock are the acquired ones,
  each once; a task that is writing is the last that acquired the lock, and the lock
  entry is set exactly when there is one; the file holds \<open>c0\<close> followed by what each
  task has written, task by task in the order of acquisition; what a task has written
  is a beginning of its payload, nothing before it has the lock and all of it when it
  has ended without an error.
\<close>

definition serial :: "string \<Rightarrow> string \<Rightarrow> string list \<Rightarrow> system \<Rightarrow> bool" where
  "serial p c0 payloads s \<longleftrightarrow>
     map payload (tasks s) = payloads
     \<and> distinct (acquired s)
     \<and> set (acquired s) = {i. i < length (tasks s) \<and> phase (tasks s ! i) \<noteq> Waiting}
     \<and> (\<forall>i < length (tasks s). phase (tasks s ! i) = Writing \<longrightarrow>
           acquired s \<noteq> [] \<and> last (acquired s) = i)
     \<and> (p \<in> writeLocks (store s) \<longleftrightarrow> (\<exists>i < length (tasks s). phase (tasks s ! i) = Writing))
     \<and> shard_text (store s) p = c0 @ concat (map (\<lambda>i. written (tasks s ! i)) (acquired s))
     \<and> (\<forall>i < length (tasks s).
           written (tasks s ! i) = take (length (written (tasks s ! i))) (payload (tasks s ! i))
           \<and> (phase (tasks s ! i) = Waiting \<longrightarrow> written (tasks s ! i) = [])
           \<and> (phase (tasks s ! i) = Done None \<longrightarrow> written (tasks s ! i) = payload (tasks s ! i)))"

text \<open>The last millisecond of the day of \<open>e\<close>.\<close>

definition day_end :: "int \<Rightarrow> int" where
  "day_end e = e - e mod msPerDay + (msPerDay - 1)"

subsection \<open>Example data\<close>

text \<open>
  A sample runtime, world and statements for the concrete instances below. The sample
  runtime gives the answers of the language runtime on the texts and values that occur
  in the examples, and nothing else.
\<close>

definition text_a :: string where
  \<open>text_a = ''{"id":"a","timestamp":"2024-05-01T12:00:00.000Z"}''\<close>

definition stmt_a :: json where
  "stmt_a = JObj [(''id'', JStr ''a''), (''timestamp'', JStr ''2024-05-01T12:00:00.000Z'')]"

definition text_b :: string where
  \<open>text_b = ''{"id":"b"}''\<close>

definition stmt_b :: json where
  "stmt_b = JObj [(''id'', JStr ''b'')]"

definition text_c :: string where
  \<open>text_c = ''{"id":"c","timestamp":"2024-06-02T08:00:00.000Z"}''\<close>

definition stmt_c :: json where
  "stmt_c = JObj [(''id'', JStr ''c''), (''timestamp'', JStr ''2024-06-02T08:00:00.000Z'')]"

definition example_runtime :: runtime where
  \<open>example_runtime =
     \<lparr>JSON_parse =
        map_of [(text_a, stmt_a), (text_b, stmt_b), (text_c, stmt_c),
                (''null'', JNull), (''false'', JBool False), (''0'', JNum 0), (''""'', JStr [])],
      JSON_stringify =
        (\<lambda>v. case map_of [(stmt_a, text_a), (stmt_b, text_b), (stmt_c, text_c)] v of
               Some t \<Rightarrow> t
             | None \<Rightarrow> ''null''),
      new_Date =
        (\<lambda>v. case v of
               JStr s \<Rightarrow>
                 map_of [(''2024-05-01T12:00:00.000Z'', 1714564800000),
                         (''2024-06-02T08:00:00.000Z'', 1717315200000)] s
             | _ \<Rightarrow> None),
      Date_now = 1714600000000\<rparr>\<close>

definition example_shard :: string where
  \<open>example_shard =
     text_a @ [CHR 0x0A] @ ''{"id":'' @ [CHR 0x0A] @ ''null'' @ [CHR 0x0A] @ ''false'' @ [CHR 0x0A]
     @ ''0'' @ [CHR 0x0A] @ ''""'' @ [CHR 0x0A] @ text_b @ [CHR 0x0A]\<close>

definition no_fault :: "string \<Rightarrow> string option" where
  "no_fault p = None"

definition example_world :: world where
  "example_world =
     \<lparr>dirs =
        (\<lambda>d. if d = ''/var/log/pxt/xapi/2024/05''
             then Some [(''01.jsonl'', example_shard), (''01-002.jsonl'', []), (''02.jsonl'', []),
                        (''01-001.jsonl'', []), (''01-1000.jsonl'', []), (''01.jsonl.bak'', [])]
             else None),
      dir_bytes = (\<lambda>p. 4096),
      mkdir_fault = no_fault,
      readdir_fault = no_fault,
      stat_fault = no_fault,
      write_fault = no_fault,
      read_fault = no_fault,
      writeLocks = {}\<rparr>"

text \<open>
  A configuration with a threshold of 10 bytes, and a world in which the shard of
  rotation index 999 of 2024-05-01 has reached it.
\<close>

definition small_config :: config where
  "small_config = \<lparr>baseDir = ''/var/log/pxt/xapi'', maxFileSize = 10, extension = ''.jsonl''\<rparr>"

definition rotated_world :: world where
  "rotated_world =
     \<lparr>dirs =
        (\<lambda>d. if d = ''/var/log/pxt/xapi/2024/05''
             then Some [(''01.jsonl'', text_b @ [CHR 0x0A]), (''01-999.jsonl'', text_b @ [CHR 0x0A])]
             else None),
      dir_bytes = (\<lambda>p. 4096),
      mkdir_fault = no_fault,
      readdir_fault = no_fault,
      stat_fault = no_fault,
      write_fault = no_fault,
      read_fault = no_fault,
      writeLocks = {}\<rparr>"

text \<open>
  The same world with one more shard, of rotation index 1000, that holds one statement.
\<close>

definition overflow_world :: world where
  "overflow_world =
     \<lparr>dirs =
        (\<lambda>d. if d = ''/var/log/pxt/xapi/2024/05''
             then Some [(''01.jsonl'', text_b @ [CHR 0x0A]), (''01-999.jsonl'', text_b @ [CHR 0x0A]),
                        (''01-1000.jsonl'', text_a @ [CHR 0x0A])]
             else None),
      dir_bytes = (\<lambda>p. 4096),
      mkdir_fault = no_fault,
      readdir_fault = no_fault,
      stat_fault = no_fault,
      write_fault = no_fault,
      read_fault = no_fault,
      writeLocks = {}\<rparr>"

text \<open>
  Worlds in which the platform refuses one call: the listing of the directory of May
  2024, the creation of the directory of June 2024, and the append to the first shard
  of 2024-06-02 in a world where that directory is there.
\<close>

definition listing_refused :: world where
  "listing_refused =
     example_world\<lparr>readdir_fault :=
        (\<lambda>p. if p = ''/var/log/pxt/xapi/2024/05''
             then Some ''EACCES: permission denied, scandir'' else None)\<rparr>"

definition mkdir_refused :: world where
  "mkdir_refused =
     example_world\<lparr>mkdir_fault :=
        (\<lambda>p. if p = ''/var/log/pxt/xapi/2024/06''
             then Some ''EACCES: permission denied, mkdir'' else None)\<rparr>"

definition append_refused :: world where
  "append_refused =
     example_world\<lparr>write_fault :=
        (\<lambda>p. if p = ''/var/log/pxt/xapi/2024/06/02.jsonl''
             then Some ''ENOSPC: no space left on device, write'' else None)\<rparr>"


text \<open>
  The example world, in which the platform refuses to open the shard of rotation index
  1 of 2024-05-01.
\<close>

definition scan_refused :: world where
  "scan_refused =
     example_world\<lparr>read_fault :=
        (\<lambda>p. if p = ''/var/log/pxt/xapi/2024/05/01-001.jsonl''
             then Some ''EACCES: permission denied, open'' else None)\<rparr>"

text \<open>
  A statement whose \<^verbatim>\<open>timestamp\<close> is the empty string, a runtime that parses its text,
  and a world in which it is the one line of the first shard of 2024-05-01.
\<close>

definition text_e :: string where
  \<open>text_e = ''{"id":"e","timestamp":""}''\<close>

definition stmt_e :: json where
  "stmt_e = JObj [(''id'', JStr ''e''), (''timestamp'', JStr [])]"

definition runtime_e :: runtime where
  "runtime_e = example_runtime\<lparr>JSON_parse := (JSON_parse example_runtime)(text_e \<mapsto> stmt_e)\<rparr>"

definition world_e :: world where
  "world_e =
     \<lparr>dirs =
        (\<lambda>d. if d = ''/var/log/pxt/xapi/2024/05''
             then Some [(''01.jsonl'', text_e @ [CHR 0x0A])]
             else None),
      dir_bytes = (\<lambda>p. 4096),
      mkdir_fault = no_fault,
      readdir_fault = no_fault,
      stat_fault = no_fault,
      write_fault = no_fault,
      read_fault = no_fault,
      writeLocks = {}\<rparr>"

section \<open>Properties\<close>

subsection \<open>Evaluation of the examples\<close>

lemmas world_defs =
  existsSync_def file_content_def dirname_def basename_def readdir_def stat_size_def readFile_def
  no_fault_def

lemma atoms_match_literal: "atoms_match (map (\<lambda>c x. x = c) s) t \<longleftrightarrow> t = s"
  unfolding atoms_match_def by (induction s arbitrary: t) (auto simp: list_all2_Cons1)

lemma shard_match_literal:
  assumes "pattern_atoms b e = Some (map (\<lambda>c x. x = c) b, map (\<lambda>c x. x = c) e)"
  shows "shard_match b e f =
     (if take (length b) f = b then
        (let rest = drop (length b) f
         in if take 1 rest = ''-'' \<and> length (take 3 (drop 1 rest)) = 3
               \<and> list_all is_digit (take 3 (drop 1 rest)) \<and> drop 4 rest = e
            then Some (Some (take 4 rest))
            else if rest = e then Some None
            else None)
      else None)"
  unfolding shard_match_def assms
  by (simp only: option.case prod.case length_map atoms_match_literal Let_def)

lemma example_patterns:
  "pattern_atoms ''01'' ''.jsonl'' = Some (map (\<lambda>c x. x = c) ''01'', map (\<lambda>c x. x = c) ''.jsonl'')"
  "pattern_atoms ''02'' ''.jsonl'' = Some (map (\<lambda>c x. x = c) ''02'', map (\<lambda>c x. x = c) ''.jsonl'')"
  by (simp_all add: pattern_atoms_def plain_atom_def escape_atom_def word_char_def is_digit_def)

lemmas example_shard_match =
  shard_match_literal [OF example_patterns(1)] shard_match_literal [OF example_patterns(2)]

lemma example_modelled:
  "modelled_pattern ''01'' ''.jsonl''" "modelled_pattern ''02'' ''.jsonl''"
  by (simp_all add: modelled_pattern_def example_patterns)

lemma may_default:
  "getDateDirectory DEFAULT_CONFIG (Some 1714564800000) = ''/var/log/pxt/xapi/2024/05''"
  "getDateFilename DEFAULT_CONFIG (Some 1714564800000) = ''01.jsonl''"
  "baseFilename_of DEFAULT_CONFIG (Some 1714564800000) = ''01''"
  "getFilePath DEFAULT_CONFIG (Some 1714564800000) None = ''/var/log/pxt/xapi/2024/05/01.jsonl''"
  "getFilePath DEFAULT_CONFIG (Some 1714564800000) (Some 2) = ''/var/log/pxt/xapi/2024/05/01-002.jsonl''"
  "getFilePath DEFAULT_CONFIG (Some 1714564800000) (Some 3) = ''/var/log/pxt/xapi/2024/05/01-003.jsonl''"
  "extension DEFAULT_CONFIG = ''.jsonl''"
  "maxFileSize DEFAULT_CONFIG = 104857600"
  by code_simp+


lemma june_default:
  "getDateDirectory DEFAULT_CONFIG (Some 1717315200000) = ''/var/log/pxt/xapi/2024/06''"
  "getDateFilename DEFAULT_CONFIG (Some 1717315200000) = ''02.jsonl''"
  "baseFilename_of DEFAULT_CONFIG (Some 1717315200000) = ''02''"
  "getFilePath DEFAULT_CONFIG (Some 1717315200000) None = ''/var/log/pxt/xapi/2024/06/02.jsonl''"
  by code_simp+

lemma may_small:
  "getDateDirectory small_config (Some 1714564800000) = ''/var/log/pxt/xapi/2024/05''"
  "getDateFilename small_config (Some 1714564800000) = ''01.jsonl''"
  "baseFilename_of small_config (Some 1714564800000) = ''01''"
  "getFilePath small_config (Some 1714564800000) None = ''/var/log/pxt/xapi/2024/05/01.jsonl''"
  "getFilePath small_config (Some 1714564800000) (Some 999) = ''/var/log/pxt/xapi/2024/05/01-999.jsonl''"
  "getFilePath small_config (Some 1714564800000) (Some 1000) = ''/var/log/pxt/xapi/2024/05/01-1000.jsonl''"
  "extension small_config = ''.jsonl''"
  "maxFileSize small_config = 10"
  by code_simp+

lemma example_lines:
  \<open>split_on (CHR 0x0A) example_shard =
     [text_a, ''{"id":'', ''null'', ''false'', ''0'', ''""'', text_b, []]\<close>
  by (simp add: example_shard_def text_a_def text_b_def)

lemma example_parse:
  "JSON_parse example_runtime text_a = Some stmt_a"
  "JSON_parse example_runtime text_b = Some stmt_b"
  "JSON_parse example_runtime text_c = Some stmt_c"
  "JSON_parse example_runtime ''null'' = Some JNull"
  "JSON_parse example_runtime ''false'' = Some (JBool False)"
  "JSON_parse example_runtime ''0'' = Some (JNum 0)"
  \<open>JSON_parse example_runtime ''""'' = Some (JStr [])\<close>
  \<open>JSON_parse example_runtime ''{"id":'' = None\<close>
  "JSON_parse example_runtime [] = None"
  by (simp_all add: example_runtime_def text_a_def text_b_def text_c_def)

lemma example_trim:
  "trim text_a \<noteq> []" "trim text_b \<noteq> []" "trim text_c \<noteq> []"
  \<open>trim ''{"id":'' \<noteq> []\<close> "trim ''null'' \<noteq> []" "trim ''false'' \<noteq> []" "trim ''0'' \<noteq> []"
  \<open>trim ''""'' \<noteq> []\<close> "trim [] = []"
  by (simp_all add: trim_def js_whitespace_def text_a_def text_b_def text_c_def)

lemma example_truthy:
  "Boolean stmt_a" "Boolean stmt_b" "Boolean stmt_c"
  by (simp_all add: stmt_a_def stmt_b_def stmt_c_def)

lemma example_files:
  "readFile example_world ''/var/log/pxt/xapi/2024/05/01.jsonl'' = Inr example_shard"
  "readFile example_world ''/var/log/pxt/xapi/2024/05/01-001.jsonl'' = Inr []"
  "readFile example_world ''/var/log/pxt/xapi/2024/05/01-002.jsonl'' = Inr []"
  "\<not> existsSync example_world ''/var/log/pxt/xapi/2024/05/03.jsonl''"
  "existsSync example_world ''/var/log/pxt/xapi/2024/05''"
  "\<not> existsSync example_world ''/var/log/pxt/xapi/2024/06''"
  "\<not> existsSync example_world ''/var/log/pxt/xapi/2024/06/02.jsonl''"
  "readdir example_world ''/var/log/pxt/xapi/2024/05''
     = Inr [''01.jsonl'', ''01-002.jsonl'', ''02.jsonl'', ''01-001.jsonl'', ''01-1000.jsonl'',
            ''01.jsonl.bak'']"
  "stat_size example_world ''/var/log/pxt/xapi/2024/05/01-002.jsonl'' = Inr 0"
  by (simp_all add: example_world_def world_defs)

lemma example_indices:
  "rotation_indices ''01'' ''.jsonl''
     [''01.jsonl'', ''01-002.jsonl'', ''02.jsonl'', ''01-001.jsonl'', ''01-1000.jsonl'',
      ''01.jsonl.bak''] = [0, 2, 1]"
  "rotation_indices ''02'' ''.jsonl''
     [''01.jsonl'', ''01-002.jsonl'', ''02.jsonl'', ''01-001.jsonl'', ''01-1000.jsonl'',
      ''01.jsonl.bak''] = [0]"
  by (simp_all add: rotation_indices_def example_shard_match is_digit_def parseInt_def)

lemma rotated_files:
  "existsSync rotated_world ''/var/log/pxt/xapi/2024/05''"
  "existsSync rotated_world ''/var/log/pxt/xapi/2024/05/01-999.jsonl''"
  "readdir rotated_world ''/var/log/pxt/xapi/2024/05'' = Inr [''01.jsonl'', ''01-999.jsonl'']"
  "stat_size rotated_world ''/var/log/pxt/xapi/2024/05/01-999.jsonl'' = Inr 11"
  by (simp_all add: rotated_world_def world_defs text_b_def)

lemma rotated_indices:
  "rotation_indices ''01'' ''.jsonl'' [''01.jsonl'', ''01-999.jsonl''] = [0, 999]"
  by (simp_all add: rotation_indices_def example_shard_match is_digit_def parseInt_def)


subsection \<open>The pattern of a day's shards\<close>

text \<open>
  The pattern is a modelled one for every date when the extension starts with a
  character that is no part of a day's name and that the model has an escape for, and
  goes on with characters that the model has atoms for; so it is with \<^verbatim>\<open>.jsonl\<close>.
\<close>

lemma digit_char_digit: "0 \<le> d \<Longrightarrow> d < 10 \<Longrightarrow> digit_char d \<in> set ''0123456789''"
proof -
  assume "0 \<le> d" "d < 10"
  then have "nat d < length ''0123456789''" by simp
  then have "''0123456789'' ! nat d \<in> set ''0123456789''" by (rule nth_mem)
  then show ?thesis by (simp only: digit_char_def)
qed

lemma digits_chars: "0 \<le> n \<Longrightarrow> set (digits n) \<subseteq> set ''0123456789''"
proof (induction n rule: digits.induct)
  case (1 n)
  show ?case
  proof (cases "n < 10")
    case True
    with 1(2) digit_char_digit [of n] show ?thesis by (subst digits.simps) simp
  next
    case False
    with 1(2) have "0 \<le> n div 10" by simp
    with 1(1) False have "set (digits (n div 10)) \<subseteq> set ''0123456789''" by simp
    moreover have "digit_char (n mod 10) \<in> set ''0123456789''"
      by (rule digit_char_digit) simp_all
    ultimately show ?thesis using False by (subst digits.simps) simp
  qed
qed

lemma day_chars: "set (padStart 2 CHR ''0'' (num_toString x)) \<subseteq> set ''0123456789-Na''"
proof -
  let ?D = "set ''0123456789-Na''"
  have split: "''0123456789-Na'' = ''0123456789'' @ ''-Na''" by simp
  have ds: "set ''0123456789'' \<subseteq> ?D" unfolding split set_append by (rule Un_upper1)
  have minus: "CHR ''-'' \<in> ?D" and zero: "CHR ''0'' \<in> ?D" by simp_all
  have nan: "set ''NaN'' \<subseteq> ?D" by simp
  have n: "set (num_toString x) \<subseteq> ?D"
  proof (cases x)
    case None
    then have "num_toString x = ''NaN''" by (simp add: num_toString_def)
    with nan show ?thesis by (simp only:)
  next
    case (Some i)
    show ?thesis
    proof (cases "i < 0")
      case True
      then have "num_toString x = CHR ''-'' # digits (- i)"
        using Some by (simp add: num_toString_def int_toString_def)
      moreover from True have "set (digits (- i)) \<subseteq> ?D"
        using digits_chars [of "- i"] ds by (meson dual_order.trans neg_0_le_iff_le less_imp_le)
      ultimately show ?thesis using minus by (simp only: list.set insert_subset)
    next
      case False
      then have "num_toString x = digits i"
        using Some by (simp add: num_toString_def int_toString_def)
      moreover from False have "set (digits i) \<subseteq> ?D"
        using digits_chars [of i] ds by (meson dual_order.trans not_less)
      ultimately show ?thesis by (simp only:)
    qed
  qed
  have "set (padStart 2 CHR ''0'' (num_toString x))
      \<subseteq> insert (CHR ''0'') (set (num_toString x))"
    unfolding padStart_def set_append by (cases "2 - length (num_toString x)") auto
  with n zero show ?thesis by blast
qed

lemma replace_first_suffix:
  assumes "e \<noteq> []" and "hd e \<notin> set d"
  shows "replace_first (d @ e) e [] = d"
  using assms(2)
proof (induction d)
  case Nil
  from assms(1) obtain c cs where "e = c # cs" by (cases e) auto
  then show ?case by simp
next
  case (Cons x xs)
  from assms(1) obtain c cs where e: "e = c # cs" by (cases e) auto
  with Cons.prems have "x \<noteq> c" by auto
  then have "take (length e) (x # xs @ e) \<noteq> e" unfolding e by simp
  with Cons show ?case by simp
qed

lemma those_plain:
  assumes "\<forall>c \<in> set s. plain_atom c \<noteq> None"
  shows "those (map plain_atom s) \<noteq> None"
  using assms by (induction s) (auto split: option.splits)

lemma plain_day_char: "x \<in> set ''0123456789-Na'' \<Longrightarrow> plain_atom x \<noteq> None"
  by (simp add: plain_atom_def) (elim disjE; simp)

lemma pattern_modelled:
  assumes "extension cfg = c # rest"
    and "c \<notin> set ''0123456789-Na''"
    and "escape_atom c \<noteq> None"
    and "\<forall>x \<in> set rest. plain_atom x \<noteq> None"
  shows "modelled_pattern (baseFilename_of cfg date) (extension cfg)"
proof -
  let ?d = "padStart 2 CHR ''0'' (num_toString (getDate date))"
  have d: "set ?d \<subseteq> set ''0123456789-Na''" by (rule day_chars)
  with assms(2) have "c \<notin> set ?d" by blast
  then have "hd (c # rest) \<notin> set ?d" by simp
  with replace_first_suffix [of "c # rest" ?d] have "replace_first (?d @ c # rest) (c # rest) [] = ?d"
    by simp
  then have b: "baseFilename_of cfg date = ?d"
    by (simp only: baseFilename_of_def getDateFilename_def Let_def assms(1))
  from d plain_day_char have "\<forall>x \<in> set ?d. plain_atom x \<noteq> None" by blast
  then have "those (map plain_atom ?d) \<noteq> None" by (rule those_plain)
  then obtain front where f: "those (map plain_atom ?d) = Some front" by blast
  from assms(4) have "those (map plain_atom rest) \<noteq> None" by (rule those_plain)
  then obtain rear where k: "those (map plain_atom rest) = Some rear" by blast
  from assms(3) obtain a where a: "escape_atom c = Some a" by blast
  have "pattern_atoms ?d (c # rest) = Some (front, a # rear)"
    by (simp add: pattern_atoms_def f k a)
  then show ?thesis by (simp only: modelled_pattern_def b assms(1)) simp
qed

lemma jsonl_pattern_modelled:
  "extension cfg = ''.jsonl'' \<Longrightarrow> modelled_pattern (baseFilename_of cfg date) (extension cfg)"
  by (rule pattern_modelled [where c = "CHR ''.''" and rest = "''jsonl''"])
     (simp_all add: escape_atom_def plain_atom_def word_char_def is_digit_def)

lemma plain_day_char_literal:
  "x \<in> set ''0123456789-Na'' \<Longrightarrow> plain_atom x = Some (\<lambda>y. y = x)"
  by (simp add: plain_atom_def) (elim disjE; simp)

lemma those_literal:
  assumes "\<forall>c \<in> set s. plain_atom c = Some (\<lambda>x. x = c)"
  shows "those (map plain_atom s) = Some (map (\<lambda>c x. x = c) s)"
  using assms by (induction s) simp_all

lemma jsonl_baseFilename:
  "extension cfg = ''.jsonl'' \<Longrightarrow>
   baseFilename_of cfg date = padStart 2 CHR ''0'' (num_toString (getDate date))"
proof -
  assume e: "extension cfg = ''.jsonl''"
  let ?d = "padStart 2 CHR ''0'' (num_toString (getDate date))"
  have "CHR ''.'' \<notin> set ''0123456789-Na''" by simp
  with day_chars [of "getDate date"] have "CHR ''.'' \<notin> set ?d" by blast
  then have "hd ''.jsonl'' \<notin> set ?d" by simp
  with replace_first_suffix [of "''.jsonl''" ?d] have "replace_first (?d @ ''.jsonl'') ''.jsonl'' [] = ?d"
    by simp
  then show ?thesis
    by (simp only: baseFilename_of_def getDateFilename_def Let_def e)
qed

lemma jsonl_pattern_literal:
  assumes "extension cfg = ''.jsonl''"
  shows "pattern_atoms (baseFilename_of cfg date) (extension cfg)
           = Some (map (\<lambda>c x. x = c) (baseFilename_of cfg date), map (\<lambda>c x. x = c) ''.jsonl'')"
proof -
  let ?d = "padStart 2 CHR ''0'' (num_toString (getDate date))"
  from day_chars [of "getDate date"] plain_day_char_literal
  have "\<forall>c \<in> set ?d. plain_atom c = Some (\<lambda>x. x = c)" by blast
  then have f: "those (map plain_atom ?d) = Some (map (\<lambda>c x. x = c) ?d)" by (rule those_literal)
  have k: "those (map plain_atom ''jsonl'') = Some (map (\<lambda>c x. x = c) ''jsonl'')"
    by (rule those_literal) (simp add: plain_atom_def)
  have a: "escape_atom CHR ''.'' = Some (\<lambda>x. x = CHR ''.'')"
    by (simp add: escape_atom_def word_char_def is_digit_def)
  show ?thesis
    unfolding jsonl_baseFilename [OF assms] assms pattern_atoms_def list.case f k a
    by simp
qed

text \<open>
  With the extension \<^verbatim>\<open>.jsonl\<close> a name matches the pattern of a day when it is the
  day's base name, then possibly a hyphen and three digits, then \<^verbatim>\<open>.jsonl\<close>.
\<close>

lemma jsonl_shard_match:
  assumes "extension cfg = ''.jsonl''"
  shows "shard_match (baseFilename_of cfg date) (extension cfg) f =
     (if take (length (baseFilename_of cfg date)) f = baseFilename_of cfg date then
        (let rest = drop (length (baseFilename_of cfg date)) f
         in if take 1 rest = ''-'' \<and> length (take 3 (drop 1 rest)) = 3
               \<and> list_all is_digit (take 3 (drop 1 rest)) \<and> drop 4 rest = ''.jsonl''
            then Some (Some (take 4 rest))
            else if rest = ''.jsonl'' then Some None
            else None)
      else None)"
proof -
  from jsonl_pattern_literal [OF assms, of date]
  have "pattern_atoms (baseFilename_of cfg date) ''.jsonl''
      = Some (map (\<lambda>c x. x = c) (baseFilename_of cfg date), map (\<lambda>c x. x = c) ''.jsonl'')"
    unfolding assms .
  from shard_match_literal [OF this] show ?thesis unfolding assms .
qed

subsection \<open>Reading one shard\<close>


lemma readFile_existsSync: "readFile w p = Inr content \<Longrightarrow> existsSync w p"
  by (auto simp: readFile_def existsSync_def split: option.splits if_splits)

lemma readStatements_content:
  "readFile w p = Inr content \<Longrightarrow>
   readStatements rt w p =
     Inr (filter Boolean
            (map (\<lambda>line. case JSON_parse rt line of Some v \<Rightarrow> v | None \<Rightarrow> JNull)
               (filter (\<lambda>line. trim line \<noteq> []) (split_on (CHR 0x0A) content))))"
  by (simp add: readStatements_def readFile_existsSync)


lemma filter_parsed_concat:
  "filter Boolean (map (\<lambda>line. case JSON_parse rt line of Some v \<Rightarrow> v | None \<Rightarrow> JNull)
      (filter (\<lambda>line. trim line \<noteq> []) ls)) =
   concat (map (line_records rt) ls)"
  by (induction ls) (auto simp: line_records_def split: option.splits)

lemma readStatements_refused:
  "existsSync w p \<Longrightarrow> readFile w p = Inl msg \<Longrightarrow> readStatements rt w p = Inl msg"
  by (simp add: readStatements_def)




text \<open>
  Claim C10. A line whose text parses to a falsy value (\<^verbatim>\<open>null\<close>, \<^verbatim>\<open>false\<close>, \<^verbatim>\<open>0\<close>,
  the empty string) is left out of the result of \<^verbatim>\<open>readStatements\<close> exactly as a
  line that does not parse: each of the two contributes nothing, a line that parses
  to a truthy value contributes that value, and so every value returned is truthy.
\<close>

theorem falsy_lines_discarded:
  assumes "readFile w p = Inr content"
  shows "readStatements rt w p = Inr (concat (map (line_records rt) (split_on (CHR 0x0A) content)))
       \<and> (\<forall>line. JSON_parse rt line = None \<longrightarrow> line_records rt line = [])
       \<and> (\<forall>line v. JSON_parse rt line = Some v \<and> \<not> Boolean v \<longrightarrow> line_records rt line = [])
       \<and> (\<forall>line v. JSON_parse rt line = Some v \<and> Boolean v \<and> trim line \<noteq> []
              \<longrightarrow> line_records rt line = [v])
       \<and> (\<forall>vs. readStatements rt w p = Inr vs \<longrightarrow> (\<forall>v \<in> set vs. Boolean v))"
proof -
  have r: "readStatements rt w p = Inr (concat (map (line_records rt) (split_on (CHR 0x0A) content)))"
    using assms by (simp add: readStatements_content filter_parsed_concat)
  have t: "\<forall>vs. readStatements rt w p = Inr vs \<longrightarrow> (\<forall>v \<in> set vs. Boolean v)"
    using assms by (auto simp: readStatements_content)
  have a: "\<forall>line. JSON_parse rt line = None \<longrightarrow> line_records rt line = []"
    by (simp add: line_records_def)
  have b: "\<forall>line v. JSON_parse rt line = Some v \<and> \<not> Boolean v \<longrightarrow> line_records rt line = []"
    by (auto simp: line_records_def)
  have c: "\<forall>line v. JSON_parse rt line = Some v \<and> Boolean v \<and> trim line \<noteq> []
              \<longrightarrow> line_records rt line = [v]"
    by (simp add: line_records_def)
  show ?thesis by (intro conjI r a b c t)
qed

theorem falsy_lines_discarded_witness:
  \<open>readFile example_world ''/var/log/pxt/xapi/2024/05/01.jsonl'' = Inr example_shard
   \<and> split_on (CHR 0x0A) example_shard = [text_a, ''{"id":'', ''null'', ''false'', ''0'', ''""'', text_b, []]
   \<and> JSON_parse example_runtime ''null'' = Some JNull
   \<and> JSON_parse example_runtime ''false'' = Some (JBool False)
   \<and> JSON_parse example_runtime ''0'' = Some (JNum 0)
   \<and> JSON_parse example_runtime ''""'' = Some (JStr [])
   \<and> line_records example_runtime ''null'' = []
   \<and> line_records example_runtime ''false'' = []
   \<and> line_records example_runtime ''0'' = []
   \<and> line_records example_runtime ''""'' = []
   \<and> line_records example_runtime ''{"id":'' = []
   \<and> readStatements example_runtime example_world ''/var/log/pxt/xapi/2024/05/01.jsonl''
       = Inr [stmt_a, stmt_b]\<close>
proof -
  note readable = example_files(1)
  note p1 = example_parse(4) and p2 = example_parse(5) and p3 = example_parse(6)
    and p4 = example_parse(7) and p5 = example_parse(8)
  have kept: "concat (map (line_records example_runtime) (split_on (CHR 0x0A) example_shard))
      = [stmt_a, stmt_b]"
    by (simp add: example_lines line_records_def example_parse example_trim example_truthy)
  note t = falsy_lines_discarded [OF readable, of example_runtime]
  note t1 = t [THEN conjunct1]
  note t2 = t [THEN conjunct2, THEN conjunct1, rule_format]
  note t3 = t [THEN conjunct2, THEN conjunct2, THEN conjunct1, rule_format]
  have result:
    "readStatements example_runtime example_world ''/var/log/pxt/xapi/2024/05/01.jsonl''
       = Inr [stmt_a, stmt_b]"
    using t1 unfolding kept .
  have d1: "line_records example_runtime ''null'' = []"
    by (rule t3 [of _ JNull]) (simp add: p1)
  have d2: "line_records example_runtime ''false'' = []"
    by (rule t3 [of _ "JBool False"]) (simp add: p2)
  have d3: "line_records example_runtime ''0'' = []"
    by (rule t3 [of _ "JNum 0"]) (simp add: p3)
  have d4: \<open>line_records example_runtime ''""'' = []\<close>
    by (rule t3 [of _ "JStr []"]) (simp add: p4)
  have d5: \<open>line_records example_runtime ''{"id":'' = []\<close>
    by (rule t2) (rule p5)
  show ?thesis
    by (intro conjI readable example_lines p1 p2 p3 p4 d1 d2 d3 d4 d5 result)
qed

subsection \<open>The current rotation index\<close>

lemma foldl_max_Max: "foldl max (acc::int) xs = Max (insert acc (set xs))"
proof -
  have "foldl max acc xs = fold max xs acc"
    by (simp add: foldl_conv_fold max.commute)
  also have "\<dots> = Max (set (acc # xs))"
    by (simp only: Max.set_eq_fold)
  finally show ?thesis by simp
qed

lemma parseInt_acc_nonneg:
  "list_all is_digit s \<Longrightarrow> 0 \<le> acc \<Longrightarrow> 0 \<le> foldl (\<lambda>acc c. 10 * acc + (of_char c - 48)) (acc::int) s"
proof (induction s arbitrary: acc)
  case Nil
  then show ?case by simp
next
  case (Cons c cs)
  from Cons.prems have "48 \<le> (of_char c :: nat)" by (simp add: is_digit_def)
  then have "(48::int) \<le> of_nat (of_char c)" by linarith
  then have "(48::int) \<le> of_char c" by (simp only: of_nat_of_char)
  with Cons.prems have "0 \<le> 10 * acc + (of_char c - 48)" by simp
  with Cons show ?case by simp
qed

lemma parseInt_nonneg: "list_all is_digit s \<Longrightarrow> 0 \<le> parseInt s"
  by (simp add: parseInt_def parseInt_acc_nonneg)

lemma shard_match_group_digits:
  "shard_match b e f = Some (Some g) \<Longrightarrow> list_all is_digit (drop 1 g) \<and> length g = 4 \<and> take 1 g = ''-''"
  by (auto simp: shard_match_def Let_def drop_take min_def split: option.splits if_splits)

lemma rotation_indices_nonneg: "i \<in> set (rotation_indices b e files) \<Longrightarrow> 0 \<le> i"
proof -
  assume "i \<in> set (rotation_indices b e files)"
  then obtain f where f: "f \<in> set files"
    and i: "i \<in> set (case shard_match b e f of None \<Rightarrow> [] | Some None \<Rightarrow> [0]
                       | Some (Some g) \<Rightarrow> [parseInt (drop 1 g)])"
    by (auto simp: rotation_indices_def)
  show ?thesis
  proof (cases "shard_match b e f")
    case None
    with i show ?thesis by simp
  next
    case outer: (Some m)
    show ?thesis
    proof (cases m)
      case None
      with outer i show ?thesis by simp
    next
      case (Some g)
      with outer have "list_all is_digit (drop 1 g)"
        using shard_match_group_digits by blast
      then have "0 \<le> parseInt (drop 1 g)" by (rule parseInt_nonneg)
      with outer Some i show ?thesis by simp
    qed
  qed
qed

lemma foldl_index_conv:
  "0 \<le> acc \<Longrightarrow>
   foldl (\<lambda>maxIndex file.
             case shard_match b e file of
               Some (Some g) \<Rightarrow> max maxIndex (parseInt (drop 1 g))
             | _ \<Rightarrow> maxIndex) acc files
   = foldl max acc (rotation_indices b e files)"
proof (induction files arbitrary: acc)
  case Nil
  show ?case by (simp add: rotation_indices_def)
next
  case (Cons f fs)
  have step: "rotation_indices b e (f # fs) =
      (case shard_match b e f of None \<Rightarrow> [] | Some None \<Rightarrow> [0] | Some (Some g) \<Rightarrow> [parseInt (drop 1 g)])
      @ rotation_indices b e fs"
    by (simp add: rotation_indices_def)
  show ?case
  proof (cases "shard_match b e f")
    case None
    then show ?thesis unfolding step using Cons by simp
  next
    case outer: (Some m)
    show ?thesis
    proof (cases m)
      case None
      with outer show ?thesis unfolding step using Cons by (simp add: max_def)
    next
      case (Some g)
      have "0 \<le> max acc (parseInt (drop 1 g))" using Cons.prems by simp
      with outer Some show ?thesis unfolding step using Cons.IH by simp
    qed
  qed
qed

lemma Max_insert_0:
  assumes "\<And>i. i \<in> set xs \<Longrightarrow> (0::int) \<le> i"
  shows "Max (insert 0 (set xs)) = (if xs = [] then 0 else Max (set xs))"
proof (cases xs)
  case Nil
  then show ?thesis by simp
next
  case (Cons x ys)
  then have "0 \<le> Max (set xs)" using assms[of x] by (simp add: Max_ge_iff)
  with Cons show ?thesis by (simp add: max_def)
qed

lemma getCurrentRotationIndex_listed:
  "existsSync w (getDateDirectory cfg date) \<Longrightarrow> readdir w (getDateDirectory cfg date) = Inr files \<Longrightarrow>
   getCurrentRotationIndex cfg w date =
     Inr (let indices = rotation_indices (baseFilename_of cfg date) (extension cfg) files
          in if indices = [] then 0 else Max (set indices))"
  by (simp add: getCurrentRotationIndex_def foldl_index_conv foldl_max_Max
      Max_insert_0 [OF rotation_indices_nonneg] Let_def)


subsection \<open>The write target\<close>

lemma path_join_neq: "path_join d x \<noteq> d"
  by (simp add: path_join_def)

lemma getFilePath_under_dir:
  "\<exists>x. getFilePath cfg date i = path_join (getDateDirectory cfg date) x"
  by (auto simp: getFilePath_def Let_def split: option.splits)

lemma getFilePath_neq_dir: "getFilePath cfg date i \<noteq> getDateDirectory cfg date"
  using getFilePath_under_dir [of cfg date i] path_join_neq by metis

lemma getFilePath_zero: "getFilePath cfg date (Some 0) = getFilePath cfg date None"
  by (simp add: getFilePath_def)

lemma getFilePath_index:
  "getFilePath cfg date (if i = 0 then None else Some i) = getFilePath cfg date (Some i)"
  by (simp add: getFilePath_zero)

lemma file_content_mkdir:
  "\<not> existsSync w d \<Longrightarrow> file_content (w\<lparr>dirs := (dirs w)(d \<mapsto> [])\<rparr>) q = file_content w q"
  by (auto simp: file_content_def existsSync_def split: option.splits)

lemma existsSync_mkdir:
  "\<not> existsSync w d \<Longrightarrow> q \<noteq> d \<Longrightarrow> existsSync (w\<lparr>dirs := (dirs w)(d \<mapsto> [])\<rparr>) q = existsSync w q"
  by (simp add: existsSync_def file_content_mkdir [unfolded existsSync_def])

lemma stat_size_mkdir:
  "\<not> existsSync w d \<Longrightarrow> q \<noteq> d \<Longrightarrow> stat_size (w\<lparr>dirs := (dirs w)(d \<mapsto> [])\<rparr>) q = stat_size w q"
  by (auto simp: stat_size_def file_content_mkdir split: option.splits)

lemma needsRotation_mkdir:
  "\<not> existsSync w d \<Longrightarrow> q \<noteq> d \<Longrightarrow> needsRotation cfg (w\<lparr>dirs := (dirs w)(d \<mapsto> [])\<rparr>) q = needsRotation cfg w q"
  by (simp add: needsRotation_def existsSync_mkdir stat_size_mkdir)

lemma ensureDir_cases:
  "ensureDir w d =
    (if existsSync w d then Return () w
     else (case mkdir_fault w d of Some msg \<Rightarrow> Raise msg w
           | None \<Rightarrow> Return () (w\<lparr>dirs := (dirs w)(d \<mapsto> [])\<rparr>)))"
  by (simp add: ensureDir_def mkdirSync_def)

lemma getCurrentRotationIndex_absent:
  "\<not> existsSync w (getDateDirectory cfg date) \<Longrightarrow> getCurrentRotationIndex cfg w date = Inr 0"
  by (simp add: getCurrentRotationIndex_def)

lemma getCurrentRotationIndex_fresh:
  "getCurrentRotationIndex cfg (w\<lparr>dirs := (dirs w)(getDateDirectory cfg date \<mapsto> [])\<rparr>) date = Inr i
   \<Longrightarrow> i = 0"
  by (auto simp: getCurrentRotationIndex_def readdir_def existsSync_def Let_def split: option.splits if_splits)

lemma getCurrentRotationIndex_fresh_ok:
  "readdir_fault w (getDateDirectory cfg date) = None \<Longrightarrow>
   getCurrentRotationIndex cfg (w\<lparr>dirs := (dirs w)(getDateDirectory cfg date \<mapsto> [])\<rparr>) date = Inr 0"
  by (auto simp: getCurrentRotationIndex_def readdir_def existsSync_def Let_def split: option.splits if_splits)

lemma getWriteFilePath_Return:
  assumes "getWriteFilePath cfg w date = Return p w'"
  shows "\<exists>i. getCurrentRotationIndex cfg w date = Inr i \<and> p = rotation_target cfg w date i"
proof (cases "existsSync w (getDateDirectory cfg date)")
  case True
  with assms show ?thesis
    by (auto simp: getWriteFilePath_def ensureDir_cases Let_def getFilePath_index rotation_target_def
        needsRotation_def split: sum.splits bool.splits if_splits)
next
  case False
  let ?d = "getDateDirectory cfg date"
  let ?w1 = "w\<lparr>dirs := (dirs w)(?d \<mapsto> [])\<rparr>"
  from False assms have nf: "mkdir_fault w ?d = None"
    by (auto simp: getWriteFilePath_def ensureDir_cases Let_def split: option.splits)
  with False assms obtain i where i: "getCurrentRotationIndex cfg ?w1 date = Inr i"
    and r: "(case needsRotation cfg ?w1 (getFilePath cfg date (Some i)) of
               Inl msg \<Rightarrow> Raise msg ?w1
             | Inr True \<Rightarrow> Return (getFilePath cfg date (Some (i + 1))) ?w1
             | Inr False \<Rightarrow> Return (getFilePath cfg date (Some i)) ?w1) = Return p w'"
    by (auto simp: getWriteFilePath_def ensureDir_cases Let_def getFilePath_index split: sum.splits)
  from i have i0: "i = 0" by (rule getCurrentRotationIndex_fresh)
  have nr: "needsRotation cfg ?w1 (getFilePath cfg date (Some i)) = needsRotation cfg w (getFilePath cfg date (Some i))"
    by (rule needsRotation_mkdir [OF False getFilePath_neq_dir])
  from r have "p = rotation_target cfg w date i"
    unfolding nr
    by (auto simp: rotation_target_def needsRotation_def split: sum.splits bool.splits if_splits)
  with i0 False show ?thesis by (simp add: getCurrentRotationIndex_absent)
qed

lemma getWriteFilePath_returns:
  assumes "mkdir_fault w (getDateDirectory cfg date) = None"
    and "readdir_fault w (getDateDirectory cfg date) = None"
    and "\<And>q. stat_fault w q = None"
    and "existsSync w (getDateDirectory cfg date) \<Longrightarrow> dirs w (getDateDirectory cfg date) \<noteq> None"
  shows "\<exists>p w'. getWriteFilePath cfg w date = Return p w'"
proof -
  have stat_ok: "\<And>v q. existsSync v q \<Longrightarrow> stat_fault v = stat_fault w \<Longrightarrow> \<exists>n. stat_size v q = Inr n"
    using assms(3) by (auto simp: stat_size_def existsSync_def split: option.splits)
  have nr: "\<And>v q. stat_fault v = stat_fault w \<Longrightarrow> \<exists>b. needsRotation cfg v q = Inr b"
    using stat_ok by (fastforce simp: needsRotation_def split: sum.splits)
  show ?thesis
  proof (cases "existsSync w (getDateDirectory cfg date)")
    case True
    with assms(4) obtain es where "dirs w (getDateDirectory cfg date) = Some es" by auto
    with assms(2) True obtain i where "getCurrentRotationIndex cfg w date = Inr i"
      by (auto simp: getCurrentRotationIndex_def readdir_def Let_def)
    moreover obtain b where "needsRotation cfg w (getFilePath cfg date (Some i)) = Inr b"
      using nr [of w] by blast
    ultimately show ?thesis using True
      by (cases b) (auto simp: getWriteFilePath_def ensureDir_cases Let_def getFilePath_index)
  next
    case False
    let ?w1 = "w\<lparr>dirs := (dirs w)(getDateDirectory cfg date \<mapsto> [])\<rparr>"
    have "getCurrentRotationIndex cfg ?w1 date = Inr 0"
      using assms(2) by (rule getCurrentRotationIndex_fresh_ok)
    moreover obtain b where "needsRotation cfg ?w1 (getFilePath cfg date (Some 0)) = Inr b"
      using nr [of ?w1] by auto
    ultimately show ?thesis using False assms(1)
      by (cases b) (auto simp: getWriteFilePath_def ensureDir_cases Let_def getFilePath_zero)
  qed
qed

text \<open>
  Claim C4, for a date whose pattern is a modelled one, as it is with the extension
  \<^verbatim>\<open>.jsonl\<close>. When \<^verbatim>\<open>getWriteFilePath\<close>
  returns, it returns the path of the shard of the date's current rotation index, or
  of the next index when that shard exists with a size at or above the threshold. It
  does return when the platform refuses neither the directory creation, nor the
  listing, nor the stat call. When the date has no shard (no file under the unsuffixed
  name, and a directory that is absent or lists no name matching the day's pattern),
  the target is the unsuffixed file: rotation index 0.
\<close>

theorem getWriteFilePath_target:
  assumes "modelled_pattern (baseFilename_of cfg date) (extension cfg)"
  shows
  "(getWriteFilePath cfg w date = Return p w' \<longrightarrow>
      (\<exists>i. getCurrentRotationIndex cfg w date = Inr i \<and> p = rotation_target cfg w date i)) \<and>
   (mkdir_fault w (getDateDirectory cfg date) = None
      \<and> readdir_fault w (getDateDirectory cfg date) = None
      \<and> (\<forall>q. stat_fault w q = None)
      \<and> (existsSync w (getDateDirectory cfg date) \<longrightarrow> dirs w (getDateDirectory cfg date) \<noteq> None)
      \<longrightarrow> (\<exists>p w'. getWriteFilePath cfg w date = Return p w')) \<and>
   (getWriteFilePath cfg w date = Return p w'
      \<and> \<not> existsSync w (getFilePath cfg date None)
      \<and> (\<not> existsSync w (getDateDirectory cfg date)
           \<or> (\<exists>files. readdir w (getDateDirectory cfg date) = Inr files
                  \<and> rotation_indices (baseFilename_of cfg date) (extension cfg) files = []))
      \<longrightarrow> p = path_join (getDateDirectory cfg date) (getDateFilename cfg date))"
proof (intro conjI impI)
  assume "getWriteFilePath cfg w date = Return p w'"
  then show "\<exists>i. getCurrentRotationIndex cfg w date = Inr i \<and> p = rotation_target cfg w date i"
    by (rule getWriteFilePath_Return)
next
  assume "mkdir_fault w (getDateDirectory cfg date) = None
      \<and> readdir_fault w (getDateDirectory cfg date) = None
      \<and> (\<forall>q. stat_fault w q = None)
      \<and> (existsSync w (getDateDirectory cfg date) \<longrightarrow> dirs w (getDateDirectory cfg date) \<noteq> None)"
  then show "\<exists>p w'. getWriteFilePath cfg w date = Return p w'"
    using getWriteFilePath_returns [of w cfg date] by blast
next
  assume a: "getWriteFilePath cfg w date = Return p w'
      \<and> \<not> existsSync w (getFilePath cfg date None)
      \<and> (\<not> existsSync w (getDateDirectory cfg date)
           \<or> (\<exists>files. readdir w (getDateDirectory cfg date) = Inr files
                  \<and> rotation_indices (baseFilename_of cfg date) (extension cfg) files = []))"
  then obtain i where i: "getCurrentRotationIndex cfg w date = Inr i"
    and p: "p = rotation_target cfg w date i"
    using getWriteFilePath_Return by blast
  have "i = 0"
  proof (cases "existsSync w (getDateDirectory cfg date)")
    case False
    with i show ?thesis by (simp add: getCurrentRotationIndex_absent)
  next
    case True
    with a obtain files where "readdir w (getDateDirectory cfg date) = Inr files"
      and "rotation_indices (baseFilename_of cfg date) (extension cfg) files = []"
      by blast
    with True i show ?thesis
      using getCurrentRotationIndex_listed [of w cfg date files] by (simp add: Let_def)
  qed
  with p a show "p = path_join (getDateDirectory cfg date) (getDateFilename cfg date)"
    by (simp add: rotation_target_def getFilePath_zero) (simp add: getFilePath_def)
qed

theorem getWriteFilePath_target_witness:
  "getCurrentRotationIndex small_config rotated_world (Some 1714564800000) = Inr 999
   \<and> stat_size rotated_world ''/var/log/pxt/xapi/2024/05/01-999.jsonl'' = Inr 11
   \<and> maxFileSize small_config = 10
   \<and> (\<exists>w'. getWriteFilePath small_config rotated_world (Some 1714564800000)
              = Return ''/var/log/pxt/xapi/2024/05/01-1000.jsonl'' w')
   \<and> getCurrentRotationIndex DEFAULT_CONFIG example_world (Some 1714564800000) = Inr 2
   \<and> stat_size example_world ''/var/log/pxt/xapi/2024/05/01-002.jsonl'' = Inr 0
   \<and> (\<exists>w'. getWriteFilePath DEFAULT_CONFIG example_world (Some 1714564800000)
              = Return ''/var/log/pxt/xapi/2024/05/01-002.jsonl'' w')
   \<and> \<not> existsSync example_world (getDateDirectory DEFAULT_CONFIG (Some 1717315200000))
   \<and> (\<exists>w'. getWriteFilePath DEFAULT_CONFIG example_world (Some 1717315200000)
              = Return ''/var/log/pxt/xapi/2024/06/02.jsonl'' w')"
proof -
  let ?may = "Some 1714564800000 :: jsdate"
  let ?june = "Some 1717315200000 :: jsdate"
  have ms: "modelled_pattern (baseFilename_of small_config ?may) (extension small_config)"
    unfolding may_small by (rule example_modelled(1))
  have md: "modelled_pattern (baseFilename_of DEFAULT_CONFIG ?may) (extension DEFAULT_CONFIG)"
    unfolding may_default by (rule example_modelled(1))
  have mj: "modelled_pattern (baseFilename_of DEFAULT_CONFIG ?june) (extension DEFAULT_CONFIG)"
    unfolding june_default may_default by (rule example_modelled(2))
  have i1: "getCurrentRotationIndex small_config rotated_world ?may = Inr 999"
    by (simp add: getCurrentRotationIndex_listed may_small
        rotated_files rotated_indices)
  note s1 = rotated_files(4)
  note m1 = may_small(8)
  have e1: "rotation_target small_config rotated_world ?may 999
      = ''/var/log/pxt/xapi/2024/05/01-1000.jsonl''"
    by (simp add: rotation_target_def may_small rotated_files)
  have f1: "mkdir_fault rotated_world (getDateDirectory small_config ?may) = None
      \<and> readdir_fault rotated_world (getDateDirectory small_config ?may) = None
      \<and> (\<forall>q. stat_fault rotated_world q = None)
      \<and> (existsSync rotated_world (getDateDirectory small_config ?may)
            \<longrightarrow> dirs rotated_world (getDateDirectory small_config ?may) \<noteq> None)"
    by (simp add: may_small rotated_world_def no_fault_def)
  have i2: "getCurrentRotationIndex DEFAULT_CONFIG example_world ?may = Inr 2"
    by (simp add: getCurrentRotationIndex_listed may_default
        example_files example_indices)
  note s2 = example_files(9)
  have e2: "rotation_target DEFAULT_CONFIG example_world ?may 2
      = ''/var/log/pxt/xapi/2024/05/01-002.jsonl''"
    by (simp add: rotation_target_def may_default example_files)
  have f2: "mkdir_fault example_world (getDateDirectory DEFAULT_CONFIG ?may) = None
      \<and> readdir_fault example_world (getDateDirectory DEFAULT_CONFIG ?may) = None
      \<and> (\<forall>q. stat_fault example_world q = None)
      \<and> (existsSync example_world (getDateDirectory DEFAULT_CONFIG ?may)
            \<longrightarrow> dirs example_world (getDateDirectory DEFAULT_CONFIG ?may) \<noteq> None)"
    by (simp add: may_default example_world_def no_fault_def)
  have a3: "\<not> existsSync example_world (getDateDirectory DEFAULT_CONFIG ?june)"
    unfolding june_default by (rule example_files(6))
  have n3: "\<not> existsSync example_world (getFilePath DEFAULT_CONFIG ?june None)"
    unfolding june_default by (rule example_files(7))
  have e3: "path_join (getDateDirectory DEFAULT_CONFIG ?june) (getDateFilename DEFAULT_CONFIG ?june)
      = ''/var/log/pxt/xapi/2024/06/02.jsonl''"
    by (simp add: june_default path_join_def)
  have f3: "mkdir_fault example_world (getDateDirectory DEFAULT_CONFIG ?june) = None
      \<and> readdir_fault example_world (getDateDirectory DEFAULT_CONFIG ?june) = None
      \<and> (\<forall>q. stat_fault example_world q = None)
      \<and> (existsSync example_world (getDateDirectory DEFAULT_CONFIG ?june)
            \<longrightarrow> dirs example_world (getDateDirectory DEFAULT_CONFIG ?june) \<noteq> None)"
    using a3 by (simp add: example_world_def no_fault_def)
  have r1: "\<exists>w'. getWriteFilePath small_config rotated_world ?may
              = Return ''/var/log/pxt/xapi/2024/05/01-1000.jsonl'' w'"
  proof -
    from getWriteFilePath_target [where cfg = small_config and date = "?may", OF ms, of rotated_world, THEN conjunct2, THEN conjunct1,
        rule_format, OF f1]
    obtain p w' where ret: "getWriteFilePath small_config rotated_world ?may = Return p w'" by blast
    from getWriteFilePath_target [where cfg = small_config and date = "?may", OF ms, of rotated_world p w', THEN conjunct1,
        rule_format, OF ret]
    obtain i where ci: "getCurrentRotationIndex small_config rotated_world ?may = Inr i"
      and pi: "p = rotation_target small_config rotated_world ?may i" by blast
    from ci have "i = 999" unfolding i1 by simp
    with pi have "p = ''/var/log/pxt/xapi/2024/05/01-1000.jsonl''" unfolding e1 [symmetric] by (simp only:)
    with ret have "getWriteFilePath small_config rotated_world ?may
        = Return ''/var/log/pxt/xapi/2024/05/01-1000.jsonl'' w'" by (simp only:)
    then show ?thesis by (rule exI)
  qed
  have r2: "\<exists>w'. getWriteFilePath DEFAULT_CONFIG example_world ?may
              = Return ''/var/log/pxt/xapi/2024/05/01-002.jsonl'' w'"
  proof -
    from getWriteFilePath_target [where cfg = DEFAULT_CONFIG and date = "?may", OF md, of example_world, THEN conjunct2, THEN conjunct1,
        rule_format, OF f2]
    obtain p w' where ret: "getWriteFilePath DEFAULT_CONFIG example_world ?may = Return p w'" by blast
    from getWriteFilePath_target [where cfg = DEFAULT_CONFIG and date = "?may", OF md, of example_world p w', THEN conjunct1,
        rule_format, OF ret]
    obtain i where ci: "getCurrentRotationIndex DEFAULT_CONFIG example_world ?may = Inr i"
      and pi: "p = rotation_target DEFAULT_CONFIG example_world ?may i" by blast
    from ci have "i = 2" unfolding i2 by simp
    with pi have "p = ''/var/log/pxt/xapi/2024/05/01-002.jsonl''" unfolding e2 [symmetric] by (simp only:)
    with ret have "getWriteFilePath DEFAULT_CONFIG example_world ?may
        = Return ''/var/log/pxt/xapi/2024/05/01-002.jsonl'' w'" by (simp only:)
    then show ?thesis by (rule exI)
  qed
  have r3: "\<exists>w'. getWriteFilePath DEFAULT_CONFIG example_world ?june
              = Return ''/var/log/pxt/xapi/2024/06/02.jsonl'' w'"
  proof -
    from getWriteFilePath_target [where cfg = DEFAULT_CONFIG and date = "?june", OF mj, of example_world, THEN conjunct2, THEN conjunct1,
        rule_format, OF f3]
    obtain p w' where ret: "getWriteFilePath DEFAULT_CONFIG example_world ?june = Return p w'" by blast
    have "p = path_join (getDateDirectory DEFAULT_CONFIG ?june) (getDateFilename DEFAULT_CONFIG ?june)"
      by (rule getWriteFilePath_target [where cfg = DEFAULT_CONFIG and date = "?june", OF mj, of example_world p w',
            THEN conjunct2, THEN conjunct2, rule_format])
         (intro conjI ret n3 disjI1 a3)
    with ret have "getWriteFilePath DEFAULT_CONFIG example_world ?june
        = Return ''/var/log/pxt/xapi/2024/06/02.jsonl'' w'" unfolding e3 by (simp only:)
    then show ?thesis by (rule exI)
  qed
  show ?thesis
    by (intro conjI i1 s1 m1 r1 i2 s2 r2 a3 r3)
qed

subsection \<open>The lock table\<close>

lemma acquireLock_held_aux: "\<forall>w p. p \<in> writeLocks w \<longrightarrow> acquireLock w p = None"
proof (rule acquireLock.fixp_induct)
  show "option.admissible (\<lambda>f. \<forall>w p. p \<in> writeLocks w \<longrightarrow> curry f w p = None)"
    by (rule ccpo.admissibleI) (auto simp: flat_lub_def fun_lub_def option.leq_refl split: if_splits)
qed auto

lemma acquireLock_held: "p \<in> writeLocks w \<Longrightarrow> acquireLock w p = None"
  using acquireLock_held_aux by blast

lemma acquireLock_free:
  "p \<notin> writeLocks w \<Longrightarrow> acquireLock w p = Some (w\<lparr>writeLocks := insert p (writeLocks w)\<rparr>)"
  by (subst acquireLock.simps) simp

lemma acquireLock_Some:
  "acquireLock w p = Some w2 \<Longrightarrow> p \<notin> writeLocks w \<and> w2 = w\<lparr>writeLocks := insert p (writeLocks w)\<rparr>"
  by (cases "p \<in> writeLocks w") (simp_all add: acquireLock_held acquireLock_free)

lemma ensureDir_locks: "writeLocks (world_after (ensureDir w d)) = writeLocks w"
  by (simp add: ensureDir_cases split: option.splits)

lemma getWriteFilePath_locks: "writeLocks (world_after (getWriteFilePath cfg w date)) = writeLocks w"
  by (auto simp: getWriteFilePath_def ensureDir_cases Let_def
      split: option.splits sum.splits bool.splits)

lemma appendFile_locks: "writeLocks (world_after (appendFile w p data)) = writeLocks w"
  by (simp add: appendFile_def split: option.splits)

lemma locked_append_released:
  assumes "p \<notin> writeLocks w"
  shows "writeLocks (releaseLock (world_after (appendFile (w\<lparr>writeLocks := insert p (writeLocks w)\<rparr>) p data)) p)
      = writeLocks w"
  using assms by (simp add: releaseLock_def appendFile_locks)

lemma appendStatement_null:
  "appendStatement rt cfg w JNull None = Some (Raise null_TypeError w)"
  by (simp add: appendStatement_def)

lemma appendStatement_Raise:
  assumes "\<not> (date = None \<and> statement = JNull)"
    and "getWriteFilePath cfg w (case date of Some d \<Rightarrow> d | None \<Rightarrow> statement_date rt statement)
           = Raise msg w1"
  shows "appendStatement rt cfg w statement date = Some (Raise msg w1)"
  using assms by (auto simp: appendStatement_def)

lemma appendStatement_held:
  assumes "\<not> (date = None \<and> statement = JNull)"
    and "getWriteFilePath cfg w (case date of Some d \<Rightarrow> d | None \<Rightarrow> statement_date rt statement)
           = Return path w1"
    and "path \<in> writeLocks w1"
  shows "appendStatement rt cfg w statement date = None"
  using assms by (auto simp: appendStatement_def acquireLock_held)

lemma appendStatement_written:
  assumes "\<not> (date = None \<and> statement = JNull)"
    and "getWriteFilePath cfg w (case date of Some d \<Rightarrow> d | None \<Rightarrow> statement_date rt statement)
           = Return path w1"
    and "path \<notin> writeLocks w1"
    and "appendFile (w1\<lparr>writeLocks := insert path (writeLocks w1)\<rparr>) path
           (JSON_stringify rt statement @ [CHR 0x0A]) = Return u w3"
  shows "appendStatement rt cfg w statement date
           = Some (Return \<lparr>filePath = path, success = True, error = None\<rparr> (releaseLock w3 path))"
  using assms by (auto simp: appendStatement_def acquireLock_free)

lemma appendStatement_refused:
  assumes "\<not> (date = None \<and> statement = JNull)"
    and "getWriteFilePath cfg w (case date of Some d \<Rightarrow> d | None \<Rightarrow> statement_date rt statement)
           = Return path w1"
    and "path \<notin> writeLocks w1"
    and "appendFile (w1\<lparr>writeLocks := insert path (writeLocks w1)\<rparr>) path
           (JSON_stringify rt statement @ [CHR 0x0A]) = Raise msg w3"
  shows "appendStatement rt cfg w statement date
           = Some (Return \<lparr>filePath = path, success = False, error = Some msg\<rparr> (releaseLock w3 path))"
  using assms by (auto simp: appendStatement_def acquireLock_free)

lemma appendStatement_locks:
  assumes "appendStatement rt cfg w statement date = Some out"
  shows "writeLocks (world_after out) = writeLocks w
       \<and> (\<forall>r w'. out = Return r w' \<longrightarrow> filePath r \<notin> writeLocks w')"
proof (cases "date = None \<and> statement = JNull")
  case True
  with assms show ?thesis by (auto simp: appendStatement_null)
next
  case False
  let ?ts = "case date of Some d \<Rightarrow> d | None \<Rightarrow> statement_date rt statement"
  show ?thesis
  proof (cases "getWriteFilePath cfg w ?ts")
    case (Raise msg w1)
    with False assms have "out = Raise msg w1" by (simp add: appendStatement_Raise)
    with Raise getWriteFilePath_locks [of cfg w ?ts] show ?thesis by simp
  next
    case (Return path w1)
    with getWriteFilePath_locks [of cfg w ?ts] have l1: "writeLocks w1 = writeLocks w" by simp
    have free: "path \<notin> writeLocks w1"
      using appendStatement_held [OF False Return] assms by auto
    let ?w2 = "w1\<lparr>writeLocks := insert path (writeLocks w1)\<rparr>"
    let ?o = "appendFile ?w2 path (JSON_stringify rt statement @ [CHR 0x0A])"
    have rel: "writeLocks (releaseLock (world_after ?o) path) = writeLocks w1"
      using free by (rule locked_append_released)
    show ?thesis
    proof (cases ?o)
      case r: (Return u w3)
      from appendStatement_written [OF False Return free r] assms
      have "out = Return \<lparr>filePath = path, success = True, error = None\<rparr> (releaseLock w3 path)"
        by simp
      with rel r l1 free show ?thesis by simp
    next
      case r: (Raise m w3)
      from appendStatement_refused [OF False Return free r] assms
      have "out = Return \<lparr>filePath = path, success = False, error = Some m\<rparr> (releaseLock w3 path)"
        by simp
      with rel r l1 free show ?thesis by simp
    qed
  qed
qed

lemma write_groups_locks:
  "write_groups rt cfg groups result w = Some out \<Longrightarrow>
   writeLocks (world_after out) = writeLocks w
   \<and> (\<forall>p \<in> set (resolved_paths rt cfg groups w). p \<notin> writeLocks w)"
proof (induction groups arbitrary: result w)
  case Nil
  then show ?case by auto
next
  case (Cons g groups)
  obtain dateKey date statements where g: "g = (dateKey, date, statements)" by (cases g)
  show ?case
  proof (cases "getWriteFilePath cfg w date")
    case (Raise msg w1)
    with Cons.prems g have "out = Raise msg w1" by simp
    with Raise g getWriteFilePath_locks [of cfg w date] show ?thesis by simp
  next
    case (Return path w1)
    with getWriteFilePath_locks [of cfg w date] have l1: "writeLocks w1 = writeLocks w" by simp
    from Return Cons.prems g obtain w2 where a: "acquireLock w1 path = Some w2"
      by (auto split: option.splits)
    then have free: "path \<notin> writeLocks w1"
      and w2: "w2 = w1\<lparr>writeLocks := insert path (writeLocks w1)\<rparr>"
      using acquireLock_Some by blast+
    let ?lines = "join_lines (map (JSON_stringify rt) statements) @ [CHR 0x0A]"
    let ?w4 = "releaseLock (world_after (appendFile w2 path ?lines)) path"
    have "writeLocks ?w4 = writeLocks w1"
      unfolding w2 using free by (rule locked_append_released)
    with l1 have rel: "writeLocks ?w4 = writeLocks w" by simp
    from Return a Cons.prems g obtain result' where
      rest: "write_groups rt cfg groups result' ?w4 = Some out"
      by (auto simp: Let_def split: outcome.splits)
    from Cons.IH [OF rest] rel
    have "writeLocks (world_after out) = writeLocks w"
      and "\<forall>p \<in> set (resolved_paths rt cfg groups ?w4). p \<notin> writeLocks w"
      by simp_all
    moreover have "resolved_paths rt cfg (g # groups) w = path # resolved_paths rt cfg groups ?w4"
      using Return a g by simp
    ultimately show ?thesis using free l1 by simp
  qed
qed

lemma appendStatements_locks:
  assumes "appendStatements rt cfg w statements = Some out"
  shows "writeLocks (world_after out) = writeLocks w
       \<and> (\<forall>p \<in> set (batch_paths rt cfg w statements). p \<notin> writeLocks (world_after out))"
proof (cases "group_by_date rt statements []")
  case (Inl msg)
  with assms show ?thesis by (auto simp: appendStatements_def batch_paths_def)
next
  case (Inr byDate)
  with assms obtain result where "write_groups rt cfg byDate result w = Some out"
    by (auto simp: appendStatements_def Let_def)
  from write_groups_locks [OF this] Inr show ?thesis by (simp add: batch_paths_def)
qed

lemma appendStatement_completes:
  assumes "writeLocks w = {}"
  shows "\<exists>out. appendStatement rt cfg w statement date = Some out"
proof (cases "date = None \<and> statement = JNull")
  case True
  then show ?thesis by (simp add: appendStatement_null)
next
  case False
  let ?ts = "case date of Some d \<Rightarrow> d | None \<Rightarrow> statement_date rt statement"
  show ?thesis
  proof (cases "getWriteFilePath cfg w ?ts")
    case (Raise msg w1)
    with False show ?thesis by (simp add: appendStatement_Raise)
  next
    case (Return path w1)
    with getWriteFilePath_locks [of cfg w ?ts] assms have free: "path \<notin> writeLocks w1" by simp
    show ?thesis
    proof (cases "appendFile (w1\<lparr>writeLocks := insert path (writeLocks w1)\<rparr>) path
                    (JSON_stringify rt statement @ [CHR 0x0A])")
      case r: (Return u w3)
      from appendStatement_written [OF False Return free r] show ?thesis by simp
    next
      case r: (Raise m w3)
      from appendStatement_refused [OF False Return free r] show ?thesis by simp
    qed
  qed
qed

lemma write_groups_completes:
  "writeLocks w = {} \<Longrightarrow> \<exists>out. write_groups rt cfg groups result w = Some out"
proof (induction groups arbitrary: result w)
  case Nil
  then show ?case by simp
next
  case (Cons g groups)
  obtain dateKey date statements where g: "g = (dateKey, date, statements)" by (cases g)
  show ?case
  proof (cases "getWriteFilePath cfg w date")
    case (Raise msg w1)
    with g show ?thesis by simp
  next
    case (Return path w1)
    with getWriteFilePath_locks [of cfg w date] Cons.prems have l1: "writeLocks w1 = {}" by simp
    then have a: "acquireLock w1 path = Some (w1\<lparr>writeLocks := insert path (writeLocks w1)\<rparr>)"
      by (simp add: acquireLock_free)
    let ?w2 = "w1\<lparr>writeLocks := insert path (writeLocks w1)\<rparr>"
    let ?lines = "join_lines (map (JSON_stringify rt) statements) @ [CHR 0x0A]"
    have "path \<notin> writeLocks w1" using l1 by simp
    then have "writeLocks (releaseLock (world_after (appendFile ?w2 path ?lines)) path) = writeLocks w1"
      by (rule locked_append_released)
    with l1 have rel: "writeLocks (releaseLock (world_after (appendFile ?w2 path ?lines)) path) = {}"
      by simp
    show ?thesis
    proof (cases "appendFile ?w2 path ?lines")
      case r: (Return u w3)
      with rel have "writeLocks (releaseLock w3 path) = {}" by simp
      from Cons.IH [OF this] Return a r g show ?thesis by (simp add: Let_def)
    next
      case r: (Raise msg w3)
      with rel have "writeLocks (releaseLock w3 path) = {}" by simp
      from Cons.IH [OF this] Return a r g show ?thesis by (simp add: Let_def)
    qed
  qed
qed

lemma appendStatements_completes:
  "writeLocks w = {} \<Longrightarrow> \<exists>out. appendStatements rt cfg w statements = Some out"
  using write_groups_completes [of w rt cfg]
  by (auto simp: appendStatements_def Let_def split: sum.splits)

subsection \<open>The append operations on the example worlds\<close>

lemma example_dates:
  "statement_date example_runtime stmt_a = Some 1714564800000"
  "statement_date example_runtime stmt_b = Some 1714600000000"
  "statement_date example_runtime stmt_c = Some 1717315200000"
  by (simp_all add: statement_date_def example_runtime_def stmt_a_def stmt_b_def stmt_c_def)

lemma example_stringify:
  "JSON_stringify example_runtime stmt_a = text_a"
  "JSON_stringify example_runtime stmt_b = text_b"
  "JSON_stringify example_runtime stmt_c = text_c"
  by (simp_all add: example_runtime_def stmt_a_def stmt_b_def stmt_c_def)

lemma example_not_null: "stmt_a \<noteq> JNull" "stmt_b \<noteq> JNull" "stmt_c \<noteq> JNull"
  by (simp_all add: stmt_a_def stmt_b_def stmt_c_def)

lemma listing_refused_path:
  "getWriteFilePath DEFAULT_CONFIG listing_refused (Some 1714564800000)
     = Raise ''EACCES: permission denied, scandir'' listing_refused"
  by (simp add: getWriteFilePath_def Let_def ensureDir_cases may_default getCurrentRotationIndex_def
      readdir_def existsSync_def listing_refused_def example_world_def)

lemma listing_refused_raises:
  "appendStatement example_runtime DEFAULT_CONFIG listing_refused stmt_a None
     = Some (Raise ''EACCES: permission denied, scandir'' listing_refused)"
  by (rule appendStatement_Raise) (simp_all add: example_not_null example_dates listing_refused_path)

lemma append_refused_june_path:
  "getWriteFilePath DEFAULT_CONFIG append_refused (Some 1717315200000)
     = Return ''/var/log/pxt/xapi/2024/06/02.jsonl''
         (append_refused\<lparr>dirs := (dirs append_refused)(''/var/log/pxt/xapi/2024/06'' \<mapsto> [])\<rparr>)"
  by (simp add: getWriteFilePath_def Let_def ensureDir_cases june_default getCurrentRotationIndex_def
      needsRotation_def readdir_def world_defs append_refused_def example_world_def)

lemma example_keys:
  "dateKey_of 1714564800000 = ''2024-05-01''"
  "dateKey_of 1717315200000 = ''2024-06-02''"
  by code_simp+

lemma example_groups:
  "group_by_date example_runtime [stmt_a, stmt_c] []
     = Inr [(''2024-05-01'', Some 1714564800000, [stmt_a]),
            (''2024-06-02'', Some 1717315200000, [stmt_c])]"
  by (simp add: example_not_null example_dates example_keys)

lemma append_refused_statement:
  "appendStatement example_runtime DEFAULT_CONFIG append_refused stmt_c None
     = Some (Return \<lparr>filePath = ''/var/log/pxt/xapi/2024/06/02.jsonl'', success = False,
                       error = Some ''ENOSPC: no space left on device, write''\<rparr>
               (append_refused\<lparr>dirs := (dirs append_refused)(''/var/log/pxt/xapi/2024/06'' \<mapsto> [])\<rparr>))"
proof -
  let ?w1 = "append_refused\<lparr>dirs := (dirs append_refused)(''/var/log/pxt/xapi/2024/06'' \<mapsto> [])\<rparr>"
  let ?p = "''/var/log/pxt/xapi/2024/06/02.jsonl''"
  have a: "\<not> (None = (None :: jsdate option) \<and> stmt_c = JNull)" by (simp add: example_not_null)
  have b: "getWriteFilePath DEFAULT_CONFIG append_refused
             (case None of Some d \<Rightarrow> d | None \<Rightarrow> statement_date example_runtime stmt_c)
           = Return ?p ?w1"
    by (simp add: example_dates append_refused_june_path)
  have c: "?p \<notin> writeLocks ?w1" by (simp add: append_refused_def example_world_def)
  have d: "appendFile (?w1\<lparr>writeLocks := insert ?p (writeLocks ?w1)\<rparr>) ?p
             (JSON_stringify example_runtime stmt_c @ [CHR 0x0A])
           = Raise ''ENOSPC: no space left on device, write'' (?w1\<lparr>writeLocks := insert ?p (writeLocks ?w1)\<rparr>)"
    by (simp add: appendFile_def append_refused_def)
  have e: "releaseLock (?w1\<lparr>writeLocks := insert ?p (writeLocks ?w1)\<rparr>) ?p = ?w1"
    by (simp add: releaseLock_def append_refused_def example_world_def)
  from appendStatement_refused [OF a b c d] show ?thesis unfolding e .
qed

lemma append_refused_batch:
  "\<exists>w'. appendStatements example_runtime DEFAULT_CONFIG append_refused [stmt_a, stmt_c]
     = Some (Return \<lparr>total_count = 2, success_count = 1, failed_count = 1,
                       errors = [''2024-06-02: ENOSPC: no space left on device, write'']\<rparr> w')"
  unfolding appendStatements_def example_groups
  by (simp add: getWriteFilePath_def Let_def ensureDir_cases
      may_default june_default getCurrentRotationIndex_def needsRotation_def readdir_def world_defs
      append_refused_def example_world_def acquireLock_free appendFile_def append_entry_def
      releaseLock_def example_shard_match is_digit_def parseInt_def example_stringify)

text \<open>
  Claim C9. Whichever way \<^verbatim>\<open>appendStatement\<close> or \<^verbatim>\<open>appendStatements\<close> ends (the write
  done, the write refused, or an exception from the path resolution), the lock table
  is as it was before the call, and it holds no entry for a shard path the operation
  resolved: the result's \<^verbatim>\<open>filePath\<close> for the single append, every path of
  \<open>batch_paths\<close> for the batch. Run from an empty lock table, both operations end.
\<close>

theorem lock_released_on_every_exit:
  "(appendStatement rt cfg w statement date = Some out \<longrightarrow>
      writeLocks (world_after out) = writeLocks w
      \<and> (\<forall>r w'. out = Return r w' \<longrightarrow> filePath r \<notin> writeLocks w')) \<and>
   (appendStatements rt cfg w statements = Some bout \<longrightarrow>
      writeLocks (world_after bout) = writeLocks w
      \<and> (\<forall>p \<in> set (batch_paths rt cfg w statements). p \<notin> writeLocks (world_after bout))) \<and>
   (writeLocks w = {} \<longrightarrow>
      (\<exists>out. appendStatement rt cfg w statement date = Some out)
      \<and> (\<exists>bout. appendStatements rt cfg w statements = Some bout))"
  using appendStatement_locks [of rt cfg w statement date out]
    appendStatements_locks [of rt cfg w statements bout]
    appendStatement_completes [of w rt cfg statement date]
    appendStatements_completes [of w rt cfg statements]
  by blast

theorem lock_released_on_every_exit_witness:
  "writeLocks append_refused = {}
   \<and> (\<exists>w'. appendStatement example_runtime DEFAULT_CONFIG append_refused stmt_c None
            = Some (Return \<lparr>filePath = ''/var/log/pxt/xapi/2024/06/02.jsonl'', success = False,
                              error = Some ''ENOSPC: no space left on device, write''\<rparr> w')
          \<and> ''/var/log/pxt/xapi/2024/06/02.jsonl'' \<notin> writeLocks w'
          \<and> writeLocks w' = {})
   \<and> batch_paths example_runtime DEFAULT_CONFIG append_refused [stmt_a, stmt_c]
        = [''/var/log/pxt/xapi/2024/05/01-002.jsonl'', ''/var/log/pxt/xapi/2024/06/02.jsonl'']
   \<and> (\<exists>w'. appendStatements example_runtime DEFAULT_CONFIG append_refused [stmt_a, stmt_c]
            = Some (Return \<lparr>total_count = 2, success_count = 1, failed_count = 1,
                              errors = [''2024-06-02: ENOSPC: no space left on device, write'']\<rparr> w')
          \<and> ''/var/log/pxt/xapi/2024/05/01-002.jsonl'' \<notin> writeLocks w'
          \<and> ''/var/log/pxt/xapi/2024/06/02.jsonl'' \<notin> writeLocks w'
          \<and> writeLocks w' = {})"
proof -
  let ?p5 = "''/var/log/pxt/xapi/2024/05/01-002.jsonl''"
  let ?p6 = "''/var/log/pxt/xapi/2024/06/02.jsonl''"
  let ?r = "\<lparr>filePath = ?p6, success = False,
              error = Some ''ENOSPC: no space left on device, write''\<rparr>"
  let ?b = "\<lparr>total_count = 2, success_count = 1, failed_count = 1,
              errors = [''2024-06-02: ENOSPC: no space left on device, write'']\<rparr>"
  let ?w1 = "append_refused\<lparr>dirs := (dirs append_refused)(''/var/log/pxt/xapi/2024/06'' \<mapsto> [])\<rparr>"
  have empty: "writeLocks append_refused = {}"
    by (simp add: append_refused_def example_world_def)
  note single = append_refused_statement
  from append_refused_batch obtain wb where
    batch: "appendStatements example_runtime DEFAULT_CONFIG append_refused [stmt_a, stmt_c]
              = Some (Return ?b wb)" by blast
  have paths: "batch_paths example_runtime DEFAULT_CONFIG append_refused [stmt_a, stmt_c] = [?p5, ?p6]"
    unfolding batch_paths_def example_groups
    by (simp add: getWriteFilePath_def Let_def ensureDir_cases
      may_default june_default getCurrentRotationIndex_def needsRotation_def readdir_def world_defs
      append_refused_def example_world_def acquireLock_free appendFile_def append_entry_def
      releaseLock_def example_shard_match is_digit_def parseInt_def example_stringify)
  note t = lock_released_on_every_exit
    [of example_runtime DEFAULT_CONFIG append_refused stmt_c None "Return ?r ?w1"
        "[stmt_a, stmt_c]" "Return ?b wb"]
  from t [THEN conjunct1, rule_format, OF single]
  have s1: "writeLocks ?w1 = writeLocks append_refused" and s2: "?p6 \<notin> writeLocks ?w1"
    by simp_all
  note tb = t [THEN conjunct2, THEN conjunct1, rule_format, OF batch, unfolded world_after.simps]
  from tb have b1: "writeLocks wb = writeLocks append_refused" by (rule conjunct1)
  from tb have b2:
    "\<forall>p \<in> set (batch_paths example_runtime DEFAULT_CONFIG append_refused [stmt_a, stmt_c]).
               p \<notin> writeLocks wb"
    by (rule conjunct2)
  from b2 have b5: "?p5 \<notin> writeLocks wb" and b6: "?p6 \<notin> writeLocks wb"
    unfolding paths by simp_all
  have r1: "\<exists>w'. appendStatement example_runtime DEFAULT_CONFIG append_refused stmt_c None
            = Some (Return ?r w') \<and> ?p6 \<notin> writeLocks w' \<and> writeLocks w' = {}"
    using single s1 s2 empty by (intro exI [of _ ?w1]) simp
  have r2: "\<exists>w'. appendStatements example_runtime DEFAULT_CONFIG append_refused [stmt_a, stmt_c]
            = Some (Return ?b w') \<and> ?p5 \<notin> writeLocks w' \<and> ?p6 \<notin> writeLocks w'
              \<and> writeLocks w' = {}"
    using batch b1 b5 b6 empty by (intro exI [of _ wb]) simp
  show ?thesis
    by (intro conjI empty r1 paths r2)
qed

subsection \<open>Failures of the path resolution\<close>

text \<open>
  Claim C3, at a failing input. The directory of the statement's month exists and the
  platform refuses to list it. \<^verbatim>\<open>getWriteFilePath\<close> runs before the \<^verbatim>\<open>try\<close> block of
  \<^verbatim>\<open>appendStatement\<close>, so the promise is rejected with the platform's message; no result
  value is returned.
\<close>

theorem appendStatement_raises_when_listing_refused:
  "dirs listing_refused ''/var/log/pxt/xapi/2024/05'' \<noteq> None
   \<and> readdir listing_refused ''/var/log/pxt/xapi/2024/05''
        = Inl ''EACCES: permission denied, scandir''
   \<and> appendStatement example_runtime DEFAULT_CONFIG listing_refused stmt_a None
        = Some (Raise ''EACCES: permission denied, scandir'' listing_refused)"
proof -
  have a: "dirs listing_refused ''/var/log/pxt/xapi/2024/05'' \<noteq> None"
    by (simp add: listing_refused_def example_world_def)
  have b: "readdir listing_refused ''/var/log/pxt/xapi/2024/05''
        = Inl ''EACCES: permission denied, scandir''"
    by (simp add: listing_refused_def readdir_def)
  show ?thesis by (intro conjI a b listing_refused_raises)
qed

text \<open>
  Claim C5, at a failing input. A batch of two statements of two dates, in a world
  where the directory of the first date is there and the platform refuses to create
  the directory of the second. The first group is appended; then \<^verbatim>\<open>getWriteFilePath\<close>,
  which runs outside the \<^verbatim>\<open>try\<close> block of the loop, throws for the second group, and
  \<^verbatim>\<open>appendStatements\<close> rejects its promise: no result, no count of failed statements,
  no error entry. The same batch in a world where only the append of the second group
  is refused returns the result the claim describes.
\<close>

theorem appendStatements_aborts_when_mkdir_refused:
  "(\<exists>w'. appendStatements example_runtime DEFAULT_CONFIG mkdir_refused [stmt_a, stmt_c]
            = Some (Raise ''EACCES: permission denied, mkdir'' w')
          \<and> file_content w' ''/var/log/pxt/xapi/2024/05/01-002.jsonl'' = Some (text_a @ [CHR 0x0A]))
   \<and> (\<exists>w'. appendStatements example_runtime DEFAULT_CONFIG append_refused [stmt_a, stmt_c]
            = Some (Return \<lparr>total_count = 2, success_count = 1, failed_count = 1,
                              errors = [''2024-06-02: ENOSPC: no space left on device, write'']\<rparr> w'))"
proof -
  have "\<exists>w'. appendStatements example_runtime DEFAULT_CONFIG mkdir_refused [stmt_a, stmt_c]
            = Some (Raise ''EACCES: permission denied, mkdir'' w')
          \<and> file_content w' ''/var/log/pxt/xapi/2024/05/01-002.jsonl'' = Some (text_a @ [CHR 0x0A])"
    unfolding appendStatements_def example_groups
    by (simp add: getWriteFilePath_def Let_def ensureDir_cases
      may_default june_default getCurrentRotationIndex_def needsRotation_def readdir_def world_defs
      mkdir_refused_def example_world_def acquireLock_free appendFile_def append_entry_def
      releaseLock_def example_shard_match is_digit_def parseInt_def example_stringify)
  then show ?thesis using append_refused_batch by (rule conjI)
qed

subsection \<open>The range scan\<close>

lemma in_range_passes: "in_range rt (Some lo) (Some hi) = passes rt lo hi"
  by (rule ext) (simp add: in_range_def passes_def date_le_def Let_def split: option.splits)

lemma scan_files_subset:
  "set (fst (scan_files rt w dir (Some lo) (Some hi) files))
     \<subseteq> set (concat (map (\<lambda>f. shard_records rt w lo hi (path_join dir f)) files))"
proof (induction files)
  case Nil
  show ?case by simp
next
  case (Cons f fs)
  show ?case
  proof (cases "readStatements rt w (path_join dir f)")
    case (Inl msg)
    then show ?thesis by simp
  next
    case (Inr statements)
    with Cons show ?thesis
      by (auto simp: shard_records_def in_range_passes split: prod.splits)
  qed
qed

lemma scan_files_complete:
  "snd (scan_files rt w dir (Some lo) (Some hi) files) = None \<Longrightarrow>
   fst (scan_files rt w dir (Some lo) (Some hi) files)
     = concat (map (\<lambda>f. shard_records rt w lo hi (path_join dir f)) files)"
proof (induction files)
  case Nil
  show ?case by simp
next
  case (Cons f fs)
  show ?case
  proof (cases "readStatements rt w (path_join dir f)")
    case (Inl msg)
    with Cons.prems show ?thesis by simp
  next
    case (Inr statements)
    with Cons show ?thesis
      by (auto simp: shard_records_def in_range_passes split: prod.splits)
  qed
qed

lemma scan_files_unhindered:
  "(\<And>f. f \<in> set files \<Longrightarrow> \<exists>st. readStatements rt w (path_join dir f) = Inr st) \<Longrightarrow>
   snd (scan_files rt w dir sd ed files) = None"
proof (induction files)
  case Nil
  show ?case by simp
next
  case (Cons f fs)
  from Cons.prems obtain st where "readStatements rt w (path_join dir f) = Inr st" by auto
  moreover have "snd (scan_files rt w dir sd ed fs) = None" using Cons by simp
  ultimately show ?case by (auto split: prod.splits)
qed

lemma scan_day_cases:
  "scan_day rt cfg w sd ed (Some (d * msPerDay)) =
     (if existsSync w (getDateDirectory cfg (Some (d * msPerDay))) then
        (case readdir w (getDateDirectory cfg (Some (d * msPerDay))) of
           Inl msg \<Rightarrow> ([], Some msg)
         | Inr files \<Rightarrow>
             scan_files rt w (getDateDirectory cfg (Some (d * msPerDay))) sd ed
               (sort (filter (\<lambda>f. shard_match (baseFilename_of cfg (Some (d * msPerDay)))
                                      (extension cfg) f \<noteq> None) files)))
      else ([], None))"
  unfolding scan_day_def Let_def by simp

lemma day_shards_cases:
  "day_shards cfg w d =
     (if existsSync w (getDateDirectory cfg (Some (d * msPerDay))) then
        (case readdir w (getDateDirectory cfg (Some (d * msPerDay))) of
           Inl msg \<Rightarrow> []
         | Inr files \<Rightarrow>
             map (path_join (getDateDirectory cfg (Some (d * msPerDay))))
               (sort (filter (\<lambda>f. shard_match (baseFilename_of cfg (Some (d * msPerDay)))
                                      (extension cfg) f \<noteq> None) files)))
      else [])"
  unfolding day_shards_def Let_def by simp

lemma scan_day_subset:
  "set (fst (scan_day rt cfg w (Some lo) (Some hi) (Some (d * msPerDay))))
     \<subseteq> set (concat (map (shard_records rt w lo hi) (day_shards cfg w d)))"
proof (cases "existsSync w (getDateDirectory cfg (Some (d * msPerDay)))")
  case False
  then show ?thesis by (simp add: scan_day_cases)
next
  case True
  show ?thesis
  proof (cases "readdir w (getDateDirectory cfg (Some (d * msPerDay)))")
    case (Inl msg)
    with True show ?thesis by (simp add: scan_day_cases)
  next
    case (Inr files)
    with True show ?thesis
      unfolding scan_day_cases day_shards_cases
      using scan_files_subset [of rt w "getDateDirectory cfg (Some (d * msPerDay))" lo hi
          "sort (filter (\<lambda>f. shard_match (baseFilename_of cfg (Some (d * msPerDay)))
                                  (extension cfg) f \<noteq> None) files)"]
      by (simp add: comp_def)
  qed
qed

lemma scan_day_complete:
  assumes "snd (scan_day rt cfg w (Some lo) (Some hi) (Some (d * msPerDay))) = None"
  shows "fst (scan_day rt cfg w (Some lo) (Some hi) (Some (d * msPerDay)))
     = concat (map (shard_records rt w lo hi) (day_shards cfg w d))"
proof (cases "existsSync w (getDateDirectory cfg (Some (d * msPerDay)))")
  case False
  then show ?thesis by (simp add: scan_day_cases day_shards_cases)
next
  case True
  show ?thesis
  proof (cases "readdir w (getDateDirectory cfg (Some (d * msPerDay)))")
    case (Inl msg)
    with True assms show ?thesis by (simp add: scan_day_cases)
  next
    case (Inr files)
    with True assms show ?thesis
      unfolding scan_day_cases day_shards_cases
      using scan_files_complete [of rt w "getDateDirectory cfg (Some (d * msPerDay))" lo hi
          "sort (filter (\<lambda>f. shard_match (baseFilename_of cfg (Some (d * msPerDay)))
                                  (extension cfg) f \<noteq> None) files)"]
      by (simp add: comp_def)
  qed
qed

lemma scan_day_unhindered:
  assumes "existsSync w (getDateDirectory cfg (Some (d * msPerDay)))
             \<Longrightarrow> \<exists>files. readdir w (getDateDirectory cfg (Some (d * msPerDay))) = Inr files"
    and "\<And>p. p \<in> set (day_shards cfg w d) \<Longrightarrow> \<exists>st. readStatements rt w p = Inr st"
  shows "snd (scan_day rt cfg w sd ed (Some (d * msPerDay))) = None"
proof (cases "existsSync w (getDateDirectory cfg (Some (d * msPerDay)))")
  case False
  then show ?thesis by (simp add: scan_day_cases)
next
  case True
  with assms(1) obtain files where
    files: "readdir w (getDateDirectory cfg (Some (d * msPerDay))) = Inr files" by blast
  let ?m = "sort (filter (\<lambda>f. shard_match (baseFilename_of cfg (Some (d * msPerDay))) (extension cfg) f \<noteq> None) files)"
  have "day_shards cfg w d = map (path_join (getDateDirectory cfg (Some (d * msPerDay)))) ?m"
    using True files by (simp add: day_shards_cases)
  with assms(2) have "\<And>f. f \<in> set ?m \<Longrightarrow>
      \<exists>st. readStatements rt w (path_join (getDateDirectory cfg (Some (d * msPerDay))) f) = Inr st"
    by simp
  then have "snd (scan_files rt w (getDateDirectory cfg (Some (d * msPerDay))) sd ed ?m) = None"
    by (rule scan_files_unhindered)
  with True files show ?thesis by (simp add: scan_day_cases)
qed

lemma day_le_aux:
  fixes d de M :: int
  assumes "0 < M"
  shows "d * M \<le> de * M + (M - 1) \<longleftrightarrow> d \<le> de"
proof
  assume "d \<le> de"
  then have "d * M \<le> de * M" using assms by (simp add: mult_right_mono)
  with assms show "d * M \<le> de * M + (M - 1)" by linarith
next
  assume a: "d * M \<le> de * M + (M - 1)"
  show "d \<le> de"
  proof (rule ccontr)
    assume "\<not> d \<le> de"
    then have "de + 1 \<le> d" by simp
    then have "(de + 1) * M \<le> d * M" using assms by (simp add: mult_right_mono)
    then have "de * M + M \<le> d * M" by (simp add: algebra_simps)
    with a show False by linarith
  qed
qed

lemma day_le: "date_le (Some (d * msPerDay)) (Some (de * msPerDay + (msPerDay - 1))) \<longleftrightarrow> d \<le> de"
  using day_le_aux [of msPerDay d de] by (simp add: date_le_def msPerDay_def)

lemma nextDay_day: "nextDay (Some (d * msPerDay)) = Some ((d + 1) * msPerDay)"
  by (simp add: nextDay_def algebra_simps)

lemma scan_days_step:
  "d \<le> de \<Longrightarrow>
   scan_days rt cfg w sd (Some (de * msPerDay + (msPerDay - 1))) (Some (d * msPerDay)) =
     (case scan_day rt cfg w sd (Some (de * msPerDay + (msPerDay - 1))) (Some (d * msPerDay)) of
        (today, Some msg) \<Rightarrow> (today, Some msg)
      | (today, None) \<Rightarrow>
          (case scan_days rt cfg w sd (Some (de * msPerDay + (msPerDay - 1))) (Some ((d + 1) * msPerDay)) of
             (later, err) \<Rightarrow> (today @ later, err)))"
  by (subst scan_days.simps) (simp add: day_le nextDay_day)

lemma scan_days_stop:
  "\<not> d \<le> de \<Longrightarrow>
   scan_days rt cfg w sd (Some (de * msPerDay + (msPerDay - 1))) (Some (d * msPerDay)) = ([], None)"
  by (subst scan_days.simps) (simp add: day_le)

lemma scan_days_subset:
  "set (fst (scan_days rt cfg w (Some lo) (Some (de * msPerDay + (msPerDay - 1))) (Some (d * msPerDay))))
     \<subseteq> set (concat (map (shard_records rt w lo (de * msPerDay + (msPerDay - 1)))
                       (concat (map (day_shards cfg w) [d..de]))))"
proof (induction "nat (de + 1 - d)" arbitrary: d)
  case 0
  then have "\<not> d \<le> de" by simp
  then show ?case by (simp add: scan_days_stop)
next
  case (Suc n)
  then have le: "d \<le> de" and n: "n = nat (de + 1 - (d + 1))" by simp_all
  let ?hi = "de * msPerDay + (msPerDay - 1)"
  have up: "[d..de] = d # [d + 1..de]" using le by (simp add: upto_rec1)
  note ih = Suc.hyps(1) [OF n]
  note today = scan_day_subset [of rt cfg w lo ?hi d]
  show ?case
    unfolding scan_days_step [OF le] up using ih today
    by (auto split: prod.splits option.splits)
qed

lemma scan_days_complete:
  "snd (scan_days rt cfg w (Some lo) (Some (de * msPerDay + (msPerDay - 1))) (Some (d * msPerDay))) = None \<Longrightarrow>
   fst (scan_days rt cfg w (Some lo) (Some (de * msPerDay + (msPerDay - 1))) (Some (d * msPerDay)))
     = concat (map (shard_records rt w lo (de * msPerDay + (msPerDay - 1)))
                 (concat (map (day_shards cfg w) [d..de])))"
proof (induction "nat (de + 1 - d)" arbitrary: d)
  case 0
  then have "\<not> d \<le> de" by simp
  then show ?case by (simp add: scan_days_stop)
next
  case (Suc n)
  then have le: "d \<le> de" and n: "n = nat (de + 1 - (d + 1))" by simp_all
  let ?hi = "de * msPerDay + (msPerDay - 1)"
  have up: "[d..de] = d # [d + 1..de]" using le by (simp add: upto_rec1)
  obtain today e1 where t: "scan_day rt cfg w (Some lo) (Some ?hi) (Some (d * msPerDay)) = (today, e1)"
    by (cases "scan_day rt cfg w (Some lo) (Some ?hi) (Some (d * msPerDay))")
  obtain later e2 where l: "scan_days rt cfg w (Some lo) (Some ?hi) (Some ((d + 1) * msPerDay)) = (later, e2)"
    by (cases "scan_days rt cfg w (Some lo) (Some ?hi) (Some ((d + 1) * msPerDay))")
  from Suc.prems have e1: "e1 = None" and e2: "e2 = None"
    unfolding scan_days_step [OF le] t l by (auto split: option.splits)
  from t e1 have "today = concat (map (shard_records rt w lo ?hi) (day_shards cfg w d))"
    using scan_day_complete [of rt cfg w lo ?hi d] by simp
  moreover from l e2 have "later = concat (map (shard_records rt w lo ?hi)
      (concat (map (day_shards cfg w) [d + 1..de])))"
    using Suc.hyps(1) [OF n] by simp
  ultimately show ?case
    unfolding scan_days_step [OF le] t l up e1 e2 by simp
qed

lemma scan_days_unhindered:
  assumes "\<And>x. d \<le> x \<Longrightarrow> x \<le> de \<Longrightarrow>
             snd (scan_day rt cfg w sd (Some (de * msPerDay + (msPerDay - 1))) (Some (x * msPerDay))) = None"
  shows "snd (scan_days rt cfg w sd (Some (de * msPerDay + (msPerDay - 1))) (Some (d * msPerDay))) = None"
  using assms
proof (induction "nat (de + 1 - d)" arbitrary: d)
  case 0
  then have "\<not> d \<le> de" by simp
  then show ?case by (simp add: scan_days_stop)
next
  case (Suc n)
  then have le: "d \<le> de" and n: "n = nat (de + 1 - (d + 1))" by simp_all
  have today: "snd (scan_day rt cfg w sd (Some (de * msPerDay + (msPerDay - 1))) (Some (d * msPerDay))) = None"
    using Suc.prems le by simp
  have later: "snd (scan_days rt cfg w sd (Some (de * msPerDay + (msPerDay - 1))) (Some ((d + 1) * msPerDay))) = None"
    using Suc.hyps(1) [OF n] Suc.prems by simp
  show ?case
    unfolding scan_days_step [OF le] using today later
    by (auto split: prod.splits option.splits)
qed

lemma startOfDay_day: "startOfDay (Some s) = Some ((s div msPerDay) * msPerDay)"
  by (simp add: startOfDay_def minus_mod_eq_div_mult)

lemma endOfDay_day: "endOfDay (Some e) = Some ((e div msPerDay) * msPerDay + (msPerDay - 1))"
  by (simp add: endOfDay_def minus_mod_eq_div_mult)

lemma day_end_day: "day_end e = (e div msPerDay) * msPerDay + (msPerDay - 1)"
  by (simp add: day_end_def minus_mod_eq_div_mult)

lemma readStatementsInRange_days:
  "readStatementsInRange rt cfg w (Some s) (Some e) =
     scan_days rt cfg w (Some s) (Some ((e div msPerDay) * msPerDay + (msPerDay - 1)))
       (Some ((s div msPerDay) * msPerDay))"
  by (simp add: readStatementsInRange_def startOfDay_day endOfDay_day)

lemma scan_subset:
  "set (fst (readStatementsInRange rt cfg w (Some s) (Some e)))
     \<subseteq> set (concat (map (shard_records rt w s (day_end e)) (visited_shards cfg w s e)))"
  unfolding readStatementsInRange_days day_end_day visited_shards_def day_numbers_def
  by (rule scan_days_subset)

lemma scan_complete:
  "snd (readStatementsInRange rt cfg w (Some s) (Some e)) = None \<Longrightarrow>
   fst (readStatementsInRange rt cfg w (Some s) (Some e))
     = concat (map (shard_records rt w s (day_end e)) (visited_shards cfg w s e))"
  unfolding readStatementsInRange_days day_end_day visited_shards_def day_numbers_def
  by (rule scan_days_complete)

lemma scan_unhindered:
  assumes "\<forall>d \<in> set (day_numbers s e).
             existsSync w (getDateDirectory cfg (Some (d * msPerDay)))
               \<longrightarrow> (\<exists>files. readdir w (getDateDirectory cfg (Some (d * msPerDay))) = Inr files)"
    and "\<forall>p \<in> set (visited_shards cfg w s e). \<exists>st. readStatements rt w p = Inr st"
  shows "snd (readStatementsInRange rt cfg w (Some s) (Some e)) = None"
  unfolding readStatementsInRange_days
proof (rule scan_days_unhindered)
  fix x
  assume "s div msPerDay \<le> x" and "x \<le> e div msPerDay"
  then have x: "x \<in> set (day_numbers s e)" by (simp add: day_numbers_def)
  show "snd (scan_day rt cfg w (Some s) (Some (e div msPerDay * msPerDay + (msPerDay - 1)))
              (Some (x * msPerDay))) = None"
  proof (rule scan_day_unhindered)
    assume "existsSync w (getDateDirectory cfg (Some (x * msPerDay)))"
    with assms(1) x show "\<exists>files. readdir w (getDateDirectory cfg (Some (x * msPerDay))) = Inr files"
      by blast
  next
    fix p
    assume "p \<in> set (day_shards cfg w x)"
    with x have "p \<in> set (visited_shards cfg w s e)" by (auto simp: visited_shards_def)
    with assms(2) show "\<exists>st. readStatements rt w p = Inr st" by blast
  qed
qed

lemma readdir_absent: "\<not> existsSync w d \<Longrightarrow> \<exists>msg. readdir w d = Inl msg"
  by (auto simp: existsSync_def readdir_def split: option.splits)

lemma shards_of_day_set: "set (day_shards cfg w d) = shards_of_day cfg w d"
proof (cases "existsSync w (getDateDirectory cfg (Some (d * msPerDay)))")
  case True
  then show ?thesis
    by (auto simp: day_shards_def shards_of_day_def Let_def split: sum.splits)
next
  case False
  from readdir_absent [OF this] obtain msg
    where "readdir w (getDateDirectory cfg (Some (d * msPerDay))) = Inl msg" ..
  with False show ?thesis by (simp add: day_shards_def shards_of_day_def Let_def)
qed

lemma visited_shards_set:
  "set (visited_shards cfg w s e) = (\<Union>d \<in> set (day_numbers s e). shards_of_day cfg w d)"
  by (simp add: visited_shards_def shards_of_day_set)

lemma stored_in_range_visited:
  "stored_in_range rt cfg w s e r \<longleftrightarrow>
     (\<exists>p \<in> set (visited_shards cfg w s e). \<exists>st. readStatements rt w p = Inr st \<and> r \<in> set st)"
  unfolding stored_in_range_def visited_shards_set by blast

lemma passes_iff:
  "passes rt lo hi r \<longleftrightarrow>
     (case timestamp_of r of
        None \<Rightarrow> True
      | Some v \<Rightarrow> Boolean v \<longrightarrow> (\<exists>t. new_Date rt v = Some t \<and> lo \<le> t \<and> t \<le> hi))"
  by (auto simp: passes_def split: option.splits)

lemma shard_records_one:
  "r \<in> set (shard_records rt w lo hi p) \<longleftrightarrow>
     (\<exists>st. readStatements rt w p = Inr st \<and> r \<in> set st) \<and> passes rt lo hi r"
  by (cases "readStatements rt w p") (auto simp: shard_records_def)

lemma shard_records_set:
  "r \<in> set (concat (map (shard_records rt w lo hi) ps)) \<longleftrightarrow>
     (\<exists>p \<in> set ps. \<exists>st. readStatements rt w p = Inr st \<and> r \<in> set st) \<and> passes rt lo hi r"
  by (auto simp: shard_records_one)

text \<open>
  Claim C1, as amended. Let the pattern of every day from the day of \<open>s\<close> to the day of
  \<open>e\<close> be a modelled one, as it is with the extension \<^verbatim>\<open>.jsonl\<close>. A scan from \<open>s\<close> to \<open>e\<close> that ends without an exception
  yields a statement exactly when the statement is stored in a shard of one of these
  days and either its \<^verbatim>\<open>timestamp\<close> is truthy and denotes a time from \<open>s\<close> to the last
  millisecond of the day of \<open>e\<close>, or its \<^verbatim>\<open>timestamp\<close> is absent or falsy. Whichever
  way the scan ends, what it has yielded is of that kind; so nothing comes from a file
  that is not a shard of one of these days, whatever its timestamps. The scan ends
  without an exception when every listing and every read it makes succeeds.
\<close>

theorem scan_range_emits:
  assumes "\<forall>d \<in> set (day_numbers s e).
             modelled_pattern (baseFilename_of cfg (Some (d * msPerDay))) (extension cfg)"
  shows
  "(snd (readStatementsInRange rt cfg w (Some s) (Some e)) = None \<longrightarrow>
      (r \<in> set (fst (readStatementsInRange rt cfg w (Some s) (Some e))) \<longleftrightarrow>
         stored_in_range rt cfg w s e r
         \<and> (case timestamp_of r of
              None \<Rightarrow> True
            | Some v \<Rightarrow> Boolean v \<longrightarrow> (\<exists>t. new_Date rt v = Some t \<and> s \<le> t \<and> t \<le> day_end e))))
   \<and> (r \<in> set (fst (readStatementsInRange rt cfg w (Some s) (Some e))) \<longrightarrow>
         stored_in_range rt cfg w s e r
         \<and> (case timestamp_of r of
              None \<Rightarrow> True
            | Some v \<Rightarrow> Boolean v \<longrightarrow> (\<exists>t. new_Date rt v = Some t \<and> s \<le> t \<and> t \<le> day_end e)))
   \<and> ((\<forall>d \<in> set (day_numbers s e).
          existsSync w (getDateDirectory cfg (Some (d * msPerDay)))
            \<longrightarrow> (\<exists>files. readdir w (getDateDirectory cfg (Some (d * msPerDay))) = Inr files))
        \<and> (\<forall>d \<in> set (day_numbers s e). \<forall>p \<in> shards_of_day cfg w d.
             \<exists>statements. readStatements rt w p = Inr statements)
        \<longrightarrow> snd (readStatementsInRange rt cfg w (Some s) (Some e)) = None)"
proof -
  let ?R = "readStatementsInRange rt cfg w (Some s) (Some e)"
  let ?C = "concat (map (shard_records rt w s (day_end e)) (visited_shards cfg w s e))"
  let ?P = "stored_in_range rt cfg w s e r
         \<and> (case timestamp_of r of
              None \<Rightarrow> True
            | Some v \<Rightarrow> Boolean v \<longrightarrow> (\<exists>t. new_Date rt v = Some t \<and> s \<le> t \<and> t \<le> day_end e))"
  let ?H = "(\<forall>d \<in> set (day_numbers s e).
          existsSync w (getDateDirectory cfg (Some (d * msPerDay)))
            \<longrightarrow> (\<exists>files. readdir w (getDateDirectory cfg (Some (d * msPerDay))) = Inr files))
        \<and> (\<forall>d \<in> set (day_numbers s e). \<forall>p \<in> shards_of_day cfg w d.
             \<exists>statements. readStatements rt w p = Inr statements)"
  have C: "r \<in> set ?C \<longleftrightarrow> ?P"
    unfolding shard_records_set stored_in_range_visited passes_iff ..
  have "r \<in> set (fst ?R) \<longleftrightarrow> ?P" if "snd ?R = None"
  proof -
    from that have "fst ?R = ?C" by (rule scan_complete)
    then show ?thesis using C by simp
  qed
  then have a: "snd ?R = None \<longrightarrow> (r \<in> set (fst ?R) \<longleftrightarrow> ?P)" by (rule impI)
  have "?P" if "r \<in> set (fst ?R)"
  proof -
    from that scan_subset [of rt cfg w s e] have "r \<in> set ?C" by blast
    then show ?thesis using C by simp
  qed
  then have b: "r \<in> set (fst ?R) \<longrightarrow> ?P" by (rule impI)
  have "snd ?R = None" if h: ?H
  proof (rule scan_unhindered)
    from h show "\<forall>d \<in> set (day_numbers s e).
           existsSync w (getDateDirectory cfg (Some (d * msPerDay)))
             \<longrightarrow> (\<exists>files. readdir w (getDateDirectory cfg (Some (d * msPerDay))) = Inr files)"
      by (rule conjunct1)
    from h show "\<forall>p \<in> set (visited_shards cfg w s e). \<exists>st. readStatements rt w p = Inr st"
      unfolding visited_shards_set by blast
  qed
  then have c: "?H \<longrightarrow> snd ?R = None" by (rule impI)
  show ?thesis by (intro conjI a b c)
qed

lemma day_19844:
  "getDateDirectory DEFAULT_CONFIG (Some (19844 * msPerDay)) = ''/var/log/pxt/xapi/2024/05''"
  "baseFilename_of DEFAULT_CONFIG (Some (19844 * msPerDay)) = ''01''"
  "getDateDirectory small_config (Some (19844 * msPerDay)) = ''/var/log/pxt/xapi/2024/05''"
  "baseFilename_of small_config (Some (19844 * msPerDay)) = ''01''"
  "day_numbers 1714521600000 1714557600000 = [19844]"
  "day_numbers 1714521600000 1714607999999 = [19844]"
  "day_end 1714557600000 = 1714607999999"
  "day_end 1714607999999 = 1714607999999"
  by code_simp+

lemma example_sorted:
  "sort [''01.jsonl'', ''01-002.jsonl'', ''01-001.jsonl'']
     = [''01-001.jsonl'', ''01-002.jsonl'', ''01.jsonl'']"
  "sort [''01.jsonl'', ''01-999.jsonl''] = [''01-999.jsonl'', ''01.jsonl'']"
  by code_simp+

lemma example_matching:
  "filter (\<lambda>f. shard_match ''01'' ''.jsonl'' f \<noteq> None)
     [''01.jsonl'', ''01-002.jsonl'', ''02.jsonl'', ''01-001.jsonl'', ''01-1000.jsonl'',
      ''01.jsonl.bak'']
   = [''01.jsonl'', ''01-002.jsonl'', ''01-001.jsonl'']"
  "filter (\<lambda>f. shard_match ''01'' ''.jsonl'' f \<noteq> None) [''01.jsonl'', ''01-999.jsonl'']
   = [''01.jsonl'', ''01-999.jsonl'']"
  "filter (\<lambda>f. shard_match ''01'' ''.jsonl'' f \<noteq> None)
     [''01.jsonl'', ''01-999.jsonl'', ''01-1000.jsonl'']
   = [''01.jsonl'', ''01-999.jsonl'']"
  "filter (\<lambda>f. shard_match ''01'' ''.jsonl'' f \<noteq> None) [''01.jsonl''] = [''01.jsonl'']"
  by code_simp+

lemma example_day_shards:
  "day_shards DEFAULT_CONFIG example_world 19844
     = [''/var/log/pxt/xapi/2024/05/01-001.jsonl'', ''/var/log/pxt/xapi/2024/05/01-002.jsonl'',
        ''/var/log/pxt/xapi/2024/05/01.jsonl'']"
  by (simp only: day_shards_cases day_19844 example_files(5,8) may_default(7) if_True sum.case
      example_matching example_sorted)
     (simp add: path_join_def)

lemma example_reads:
  "readStatements example_runtime example_world ''/var/log/pxt/xapi/2024/05/01-001.jsonl'' = Inr []"
  "readStatements example_runtime example_world ''/var/log/pxt/xapi/2024/05/01-002.jsonl'' = Inr []"
  "readStatements example_runtime example_world ''/var/log/pxt/xapi/2024/05/01.jsonl''
     = Inr [stmt_a, stmt_b]"
  by (simp_all add: readStatements_content example_files example_lines example_parse example_trim
      example_truthy)

lemma example_passes:
  "passes example_runtime 1714521600000 1714607999999 stmt_a"
  "passes example_runtime 1714521600000 1714607999999 stmt_b"
  by (simp_all add: passes_def stmt_a_def stmt_b_def example_runtime_def)

lemma example_visited:
  "visited_shards DEFAULT_CONFIG example_world 1714521600000 1714557600000
     = [''/var/log/pxt/xapi/2024/05/01-001.jsonl'', ''/var/log/pxt/xapi/2024/05/01-002.jsonl'',
        ''/var/log/pxt/xapi/2024/05/01.jsonl'']"
  by (simp add: visited_shards_def day_19844 example_day_shards)

lemma example_scan:
  "readStatementsInRange example_runtime DEFAULT_CONFIG example_world
     (Some 1714521600000) (Some 1714557600000) = ([stmt_a, stmt_b], None)"
proof -
  let ?R = "readStatementsInRange example_runtime DEFAULT_CONFIG example_world
     (Some 1714521600000) (Some 1714557600000)"
  note v = example_visited
  have "snd ?R = None"
    by (rule scan_unhindered) (simp_all add: v day_19844 example_files example_reads)
  moreover from this have "fst ?R = [stmt_a, stmt_b]"
    by (simp add: scan_complete v day_19844 shard_records_def example_reads example_passes)
  ultimately show ?thesis by (simp add: prod_eq_iff)
qed

lemma files_e:
  "existsSync world_e ''/var/log/pxt/xapi/2024/05''"
  "readdir world_e ''/var/log/pxt/xapi/2024/05'' = Inr [''01.jsonl'']"
  "readFile world_e ''/var/log/pxt/xapi/2024/05/01.jsonl'' = Inr (text_e @ [CHR 0x0A])"
  by (simp_all add: world_e_def world_defs)

lemma reads_e:
  "readStatements runtime_e world_e ''/var/log/pxt/xapi/2024/05/01.jsonl'' = Inr [stmt_e]"
proof -
  have l: "split_on (CHR 0x0A) (text_e @ [CHR 0x0A]) = [text_e, []]" by (simp add: text_e_def)
  have t: "trim text_e \<noteq> []" by (simp add: trim_def js_whitespace_def text_e_def)
  have p: "JSON_parse runtime_e text_e = Some stmt_e" by (simp add: runtime_e_def)
  have b: "Boolean stmt_e" by (simp add: stmt_e_def)
  show ?thesis
    by (simp add: readStatements_content files_e l t p b example_trim)
qed

lemma visited_e:
  "visited_shards DEFAULT_CONFIG world_e 1714521600000 1714557600000
     = [''/var/log/pxt/xapi/2024/05/01.jsonl'']"
proof -
  have "day_shards DEFAULT_CONFIG world_e 19844 = [''/var/log/pxt/xapi/2024/05/01.jsonl'']"
    by (simp only: day_shards_cases day_19844 files_e may_default(7) if_True sum.case
        example_matching)
       (simp add: path_join_def)
  then show ?thesis by (simp add: visited_shards_def day_19844)
qed

lemma scan_e:
  "readStatementsInRange runtime_e DEFAULT_CONFIG world_e
     (Some 1714521600000) (Some 1714557600000) = ([stmt_e], None)"
proof -
  let ?R = "readStatementsInRange runtime_e DEFAULT_CONFIG world_e
     (Some 1714521600000) (Some 1714557600000)"
  have p: "passes runtime_e 1714521600000 1714607999999 stmt_e"
    by (simp add: passes_def stmt_e_def)
  have "snd ?R = None"
    by (rule scan_unhindered) (simp_all add: visited_e day_19844 files_e reads_e)
  moreover from this have "fst ?R = [stmt_e]"
    by (simp add: scan_complete visited_e day_19844 shard_records_def reads_e p)
  ultimately show ?thesis by (simp add: prod_eq_iff)
qed

lemma files_refused:
  "existsSync scan_refused ''/var/log/pxt/xapi/2024/05''"
  "readdir scan_refused ''/var/log/pxt/xapi/2024/05''
     = Inr [''01.jsonl'', ''01-002.jsonl'', ''02.jsonl'', ''01-001.jsonl'', ''01-1000.jsonl'',
            ''01.jsonl.bak'']"
  "readFile scan_refused ''/var/log/pxt/xapi/2024/05/01.jsonl'' = Inr example_shard"
  "existsSync scan_refused ''/var/log/pxt/xapi/2024/05/01-001.jsonl''"
  "readFile scan_refused ''/var/log/pxt/xapi/2024/05/01-001.jsonl''
     = Inl ''EACCES: permission denied, open''"
  by (simp_all add: scan_refused_def example_world_def world_defs)

lemma reads_refused:
  "readStatements example_runtime scan_refused ''/var/log/pxt/xapi/2024/05/01-001.jsonl''
     = Inl ''EACCES: permission denied, open''"
  "readStatements example_runtime scan_refused ''/var/log/pxt/xapi/2024/05/01.jsonl''
     = Inr [stmt_a, stmt_b]"
  by (simp_all add: readStatements_refused readStatements_content files_refused example_lines
      example_parse example_trim example_truthy)

lemma scan_refused_result:
  "readStatementsInRange example_runtime DEFAULT_CONFIG scan_refused
     (Some 1714521600000) (Some 1714557600000) = ([], Some ''EACCES: permission denied, open'')"
proof -
  have d: "(1714521600000 :: int) div msPerDay = 19844" "(1714557600000 :: int) div msPerDay = 19844"
    by (simp_all add: msPerDay_def)
  have p: "path_join ''/var/log/pxt/xapi/2024/05'' ''01-001.jsonl''
      = ''/var/log/pxt/xapi/2024/05/01-001.jsonl''"
    by (simp add: path_join_def)
  have "scan_day example_runtime DEFAULT_CONFIG scan_refused (Some 1714521600000)
      (Some (19844 * msPerDay + (msPerDay - 1))) (Some (19844 * msPerDay))
    = ([], Some ''EACCES: permission denied, open'')"
    by (simp only: scan_day_cases day_19844 files_refused(1,2) may_default(7) if_True sum.case
        example_matching example_sorted scan_files.simps p reads_refused(1))
  then show ?thesis
    unfolding readStatementsInRange_days d
    by (subst scan_days_step) simp_all
qed

text \<open>
  Claim C1 as it is stated fails in three ways. A scan whose end is 10:00 of 2024-05-01
  yields a statement of 12:00 of that day. A scan yields a statement that carries a
  \<^verbatim>\<open>timestamp\<close> field, the empty string, which denotes no time at all. And a scan that
  an exception ends at the first shard of the day yields nothing of what a later shard
  of that day stores, not even the statement that has no \<^verbatim>\<open>timestamp\<close>.
\<close>

theorem scan_filter_counterexample:
  "stmt_a \<in> set (fst (readStatementsInRange example_runtime DEFAULT_CONFIG example_world
                        (Some 1714521600000) (Some 1714557600000)))
   \<and> timestamp_of stmt_a = Some (JStr ''2024-05-01T12:00:00.000Z'')
   \<and> new_Date example_runtime (JStr ''2024-05-01T12:00:00.000Z'') = Some 1714564800000
   \<and> (1714521600000 :: int) \<le> 1714557600000
   \<and> (1714557600000 :: int) < 1714564800000
   \<and> stmt_e \<in> set (fst (readStatementsInRange runtime_e DEFAULT_CONFIG world_e
                          (Some 1714521600000) (Some 1714557600000)))
   \<and> timestamp_of stmt_e = Some (JStr [])
   \<and> new_Date runtime_e (JStr []) = None
   \<and> readStatementsInRange example_runtime DEFAULT_CONFIG scan_refused
         (Some 1714521600000) (Some 1714557600000) = ([], Some ''EACCES: permission denied, open'')
   \<and> readStatements example_runtime scan_refused ''/var/log/pxt/xapi/2024/05/01.jsonl''
       = Inr [stmt_a, stmt_b]
   \<and> timestamp_of stmt_b = None"
  by (simp add: example_scan scan_e scan_refused_result reads_refused)
     (simp add: stmt_a_def stmt_b_def stmt_e_def example_runtime_def runtime_e_def)

theorem scan_range_emits_witness:
  "day_numbers 1714521600000 1714557600000 = [19844]
   \<and> modelled_pattern (baseFilename_of DEFAULT_CONFIG (Some (19844 * msPerDay)))
       (extension DEFAULT_CONFIG)
   \<and> ''/var/log/pxt/xapi/2024/05/01.jsonl'' \<in> shards_of_day DEFAULT_CONFIG example_world 19844
   \<and> readStatements example_runtime example_world ''/var/log/pxt/xapi/2024/05/01.jsonl''
       = Inr [stmt_a, stmt_b]
   \<and> timestamp_of stmt_a = Some (JStr ''2024-05-01T12:00:00.000Z'')
   \<and> new_Date example_runtime (JStr ''2024-05-01T12:00:00.000Z'') = Some 1714564800000
   \<and> day_end 1714557600000 = 1714607999999
   \<and> snd (readStatementsInRange example_runtime DEFAULT_CONFIG example_world
             (Some 1714521600000) (Some 1714557600000)) = None
   \<and> stmt_a \<in> set (fst (readStatementsInRange example_runtime DEFAULT_CONFIG example_world
                          (Some 1714521600000) (Some 1714557600000)))"
proof -
  let ?R = "readStatementsInRange example_runtime DEFAULT_CONFIG example_world
     (Some 1714521600000) (Some 1714557600000)"
  let ?p = "''/var/log/pxt/xapi/2024/05/01.jsonl''"
  have m: "modelled_pattern (baseFilename_of DEFAULT_CONFIG (Some (19844 * msPerDay)))
       (extension DEFAULT_CONFIG)"
    unfolding day_19844 may_default by (rule example_modelled(1))
  then have ms: "\<forall>d \<in> set (day_numbers 1714521600000 1714557600000).
      modelled_pattern (baseFilename_of DEFAULT_CONFIG (Some (d * msPerDay))) (extension DEFAULT_CONFIG)"
    by (simp add: day_19844(5))
  note t = scan_range_emits
    [of 1714521600000 1714557600000 DEFAULT_CONFIG example_runtime example_world stmt_a, OF ms]
  have sh: "shards_of_day DEFAULT_CONFIG example_world 19844
      = {''/var/log/pxt/xapi/2024/05/01-001.jsonl'', ''/var/log/pxt/xapi/2024/05/01-002.jsonl'', ?p}"
    unfolding shards_of_day_set [symmetric] example_day_shards by simp
  then have inp: "?p \<in> shards_of_day DEFAULT_CONFIG example_world 19844" by simp
  have h: "(\<forall>d \<in> set (day_numbers 1714521600000 1714557600000).
          existsSync example_world (getDateDirectory DEFAULT_CONFIG (Some (d * msPerDay)))
            \<longrightarrow> (\<exists>files. readdir example_world (getDateDirectory DEFAULT_CONFIG (Some (d * msPerDay)))
                            = Inr files))
        \<and> (\<forall>d \<in> set (day_numbers 1714521600000 1714557600000).
             \<forall>p \<in> shards_of_day DEFAULT_CONFIG example_world d.
               \<exists>statements. readStatements example_runtime example_world p = Inr statements)"
    unfolding day_19844 by (simp add: sh day_19844 example_files example_reads)
  have n: "snd ?R = None"
    by (rule t [THEN conjunct2, THEN conjunct2, rule_format]) (rule h)
  have ts: "timestamp_of stmt_a = Some (JStr ''2024-05-01T12:00:00.000Z'')"
    by (simp add: stmt_a_def)
  have d: "new_Date example_runtime (JStr ''2024-05-01T12:00:00.000Z'') = Some 1714564800000"
    by (simp add: example_runtime_def)
  have st: "stored_in_range example_runtime DEFAULT_CONFIG example_world
      1714521600000 1714557600000 stmt_a"
    unfolding stored_in_range_def
  proof (rule bexI [where x = 19844], rule bexI [where x = ?p],
      rule exI [where x = "[stmt_a, stmt_b]"], rule conjI)
    show "readStatements example_runtime example_world ?p = Inr [stmt_a, stmt_b]"
      by (rule example_reads(3))
    show "stmt_a \<in> set [stmt_a, stmt_b]" by simp
    show "?p \<in> shards_of_day DEFAULT_CONFIG example_world 19844" by (rule inp)
    show "19844 \<in> set (day_numbers 1714521600000 1714557600000)" by (simp add: day_19844(5))
  qed
  have f: "stmt_a \<in> set (fst ?R)"
    by (rule t [THEN conjunct1, rule_format, OF n, THEN iffD2])
       (simp add: st ts d day_19844)
  show ?thesis
    by (intro conjI day_19844(5) m inp example_reads(3) ts d day_19844(7) n f)
qed

subsection \<open>Appending, then scanning\<close>

lemma rotated_path:
  "getWriteFilePath small_config rotated_world (Some 1714564800000)
     = Return ''/var/log/pxt/xapi/2024/05/01-1000.jsonl'' rotated_world"
proof -
  have i: "getCurrentRotationIndex small_config rotated_world (Some 1714564800000) = Inr 999"
    by (simp add: getCurrentRotationIndex_listed may_small rotated_files rotated_indices)
  show ?thesis
    by (simp add: getWriteFilePath_def Let_def ensureDir_cases i may_small needsRotation_def
        rotated_files)
qed

lemma rotated_append:
  "appendStatement example_runtime small_config rotated_world stmt_a None
     = Some (Return \<lparr>filePath = ''/var/log/pxt/xapi/2024/05/01-1000.jsonl'', success = True,
                       error = None\<rparr> overflow_world)"
proof -
  let ?p = "''/var/log/pxt/xapi/2024/05/01-1000.jsonl''"
  have a: "appendFile (rotated_world\<lparr>writeLocks := insert ?p (writeLocks rotated_world)\<rparr>) ?p
             (JSON_stringify example_runtime stmt_a @ [CHR 0x0A])
           = Return () (overflow_world\<lparr>writeLocks := {?p}\<rparr>)"
    by (simp add: appendFile_def append_entry_def rotated_world_def overflow_world_def
        example_stringify no_fault_def dirname_def basename_def fun_eq_iff)
  have r: "releaseLock (overflow_world\<lparr>writeLocks := {?p}\<rparr>) ?p = overflow_world"
    by (simp add: releaseLock_def overflow_world_def)
  have "appendStatement example_runtime small_config rotated_world stmt_a None
     = Some (Return \<lparr>filePath = ?p, success = True, error = None\<rparr>
               (releaseLock (overflow_world\<lparr>writeLocks := {?p}\<rparr>) ?p))"
    by (rule appendStatement_written [where ?w1.0 = rotated_world and u = "()"])
      (simp_all add: example_not_null example_dates rotated_path a, simp add: rotated_world_def)
  then show ?thesis unfolding r .
qed

lemma overflow_files:
  "existsSync overflow_world ''/var/log/pxt/xapi/2024/05''"
  "readdir overflow_world ''/var/log/pxt/xapi/2024/05''
     = Inr [''01.jsonl'', ''01-999.jsonl'', ''01-1000.jsonl'']"
  "readFile overflow_world ''/var/log/pxt/xapi/2024/05/01.jsonl'' = Inr (text_b @ [CHR 0x0A])"
  "readFile overflow_world ''/var/log/pxt/xapi/2024/05/01-999.jsonl'' = Inr (text_b @ [CHR 0x0A])"
  "readFile overflow_world ''/var/log/pxt/xapi/2024/05/01-1000.jsonl'' = Inr (text_a @ [CHR 0x0A])"
  by (simp_all add: overflow_world_def world_defs)

lemma one_line:
  "split_on (CHR 0x0A) (text_a @ [CHR 0x0A]) = [text_a, []]"
  "split_on (CHR 0x0A) (text_b @ [CHR 0x0A]) = [text_b, []]"
  by (simp_all add: text_a_def text_b_def)

lemma overflow_reads:
  "readStatements example_runtime overflow_world ''/var/log/pxt/xapi/2024/05/01.jsonl''
     = Inr [stmt_b]"
  "readStatements example_runtime overflow_world ''/var/log/pxt/xapi/2024/05/01-999.jsonl''
     = Inr [stmt_b]"
  "readStatements example_runtime overflow_world ''/var/log/pxt/xapi/2024/05/01-1000.jsonl''
     = Inr [stmt_a]"
  by (simp_all add: readStatements_content overflow_files one_line example_parse example_trim
      example_truthy)

lemma overflow_day_shards:
  "day_shards small_config overflow_world 19844
     = [''/var/log/pxt/xapi/2024/05/01-999.jsonl'', ''/var/log/pxt/xapi/2024/05/01.jsonl'']"
  by (simp only: day_shards_cases day_19844 overflow_files(1,2) may_small(7) if_True sum.case
      example_matching example_sorted)
     (simp add: path_join_def)

lemma overflow_scan:
  "readStatementsInRange example_runtime small_config overflow_world
     (Some 1714521600000) (Some 1714607999999) = ([stmt_b, stmt_b], None)"
proof -
  let ?R = "readStatementsInRange example_runtime small_config overflow_world
     (Some 1714521600000) (Some 1714607999999)"
  have v: "visited_shards small_config overflow_world 1714521600000 1714607999999
     = [''/var/log/pxt/xapi/2024/05/01-999.jsonl'', ''/var/log/pxt/xapi/2024/05/01.jsonl'']"
    by (simp add: visited_shards_def day_19844 overflow_day_shards)
  have "snd ?R = None"
    by (rule scan_unhindered) (simp_all add: v day_19844 overflow_files overflow_reads)
  moreover from this have "fst ?R = [stmt_b, stmt_b]"
    by (simp add: scan_complete v day_19844 shard_records_def overflow_reads example_passes)
  ultimately show ?thesis by (simp add: prod_eq_iff)
qed

text \<open>
  Claim C2, at a failing input. The threshold is 10 bytes and the shard of rotation
  index 999 of 2024-05-01 holds 11 bytes. \<^verbatim>\<open>appendStatement\<close> of a statement of
  2024-05-01T12:00Z succeeds and writes its line, alone and whole, to
  \<^verbatim>\<open>01-1000.jsonl\<close>: \<^verbatim>\<open>padStart(3, "0")\<close> leaves the four digits of 1000 as they are.
  \<^verbatim>\<open>readStatements\<close> on that file returns the statement. The scan of the whole of
  2024-05-01 ends without an exception and does not yield it: the pattern
  \<^verbatim>\<open>(-\d{3})?\<close> of \<^verbatim>\<open>readStatementsInRange\<close> admits exactly three digits, so the file is
  not among the shards of the day.
\<close>

theorem appended_statement_not_scanned:
  "appendStatement example_runtime small_config rotated_world stmt_a None
     = Some (Return \<lparr>filePath = ''/var/log/pxt/xapi/2024/05/01-1000.jsonl'', success = True,
                       error = None\<rparr> overflow_world)
   \<and> readStatements example_runtime overflow_world ''/var/log/pxt/xapi/2024/05/01-1000.jsonl''
       = Inr [stmt_a]
   \<and> statement_date example_runtime stmt_a = Some 1714564800000
   \<and> (1714521600000 :: int) \<le> 1714564800000 \<and> (1714564800000 :: int) \<le> 1714607999999
   \<and> readStatementsInRange example_runtime small_config overflow_world
        (Some 1714521600000) (Some 1714607999999) = ([stmt_b, stmt_b], None)
   \<and> stmt_a \<notin> set [stmt_b, stmt_b]"
proof -
  have n: "stmt_a \<notin> set [stmt_b, stmt_b]" by (simp add: stmt_a_def stmt_b_def)
  have l: "(1714521600000 :: int) \<le> 1714564800000" "(1714564800000 :: int) \<le> 1714607999999"
    by simp_all
  show ?thesis
    by (intro conjI rotated_append overflow_reads(3) example_dates(1) l overflow_scan n)
qed

end
